theory Spec2Isabelle
  imports Complex_Main
begin

section \<open>Floats\<close>

text \<open>
  A Python float is an IEEE double: a finite number, an infinity or NaN. Finite values are
  modelled as reals and rounding is not modelled: a product of finite values is exact.
  Every ordered comparison with NaN is false.
\<close>

datatype pyfloat = Finite real | PosInf | NegInf | NaN

text \<open>\<open>a > b\<close> and \<open>a <= b\<close> on floats.\<close>

fun float_gt :: "pyfloat \<Rightarrow> pyfloat \<Rightarrow> bool" where
  "float_gt NaN b = False"
| "float_gt a NaN = False"
| "float_gt (Finite x) (Finite y) = (x > y)"
| "float_gt PosInf PosInf = False"
| "float_gt PosInf b = True"
| "float_gt a PosInf = False"
| "float_gt NegInf b = False"
| "float_gt a NegInf = True"

fun float_le :: "pyfloat \<Rightarrow> pyfloat \<Rightarrow> bool" where
  "float_le NaN b = False"
| "float_le a NaN = False"
| "float_le (Finite x) (Finite y) = (x \<le> y)"
| "float_le NegInf b = True"
| "float_le a PosInf = True"
| "float_le PosInf b = False"
| "float_le a NegInf = False"

text \<open>\<open>a * b\<close> on floats; an infinity times zero is NaN.\<close>

fun float_times :: "pyfloat \<Rightarrow> pyfloat \<Rightarrow> pyfloat" where
  "float_times NaN b = NaN"
| "float_times a NaN = NaN"
| "float_times (Finite x) (Finite y) = Finite (x * y)"
| "float_times PosInf (Finite y) = (if y > 0 then PosInf else if y < 0 then NegInf else NaN)"
| "float_times NegInf (Finite y) = (if y > 0 then NegInf else if y < 0 then PosInf else NaN)"
| "float_times (Finite x) PosInf = (if x > 0 then PosInf else if x < 0 then NegInf else NaN)"
| "float_times (Finite x) NegInf = (if x > 0 then NegInf else if x < 0 then PosInf else NaN)"
| "float_times PosInf PosInf = PosInf"
| "float_times NegInf NegInf = PosInf"
| "float_times PosInf NegInf = NegInf"
| "float_times NegInf PosInf = NegInf"

section \<open>Data model\<close>

text \<open>
  The notebook \<open>Notebooks/1.using_reader.ipynb\<close> reads a feature collection, reprojects the
  first ring of every feature, scans it for the vertex nearest to a fixed place and keeps
  the features whose nearest vertex is within a mile threshold.

  A coordinate of the file is a JSON list \<open>[x, y]\<close>, read with \<open>coord[0]\<close> and \<open>coord[1]\<close>;
  a reprojected point is the tuple \<open>(lat, lon)\<close>.
\<close>

type_synonym coord = "pyfloat list"
type_synonym point = "pyfloat \<times> pyfloat"
type_synonym ring = "coord list"

text \<open>The exceptions the modelled statements can raise; all are subclasses of \<open>Exception\<close>.\<close>

datatype error = KeyError string | IndexError | TypeError string

text \<open>
  The values that occur as attribute values and as entries of \<open>closest_point\<close>: JSON numbers,
  strings and null, and the \<open>(lat, lon)\<close> tuple.
\<close>

datatype pyval = PyInt int | PyFloat pyfloat | PyStr string | PyNone | PyTuple point

type_synonym attrs = "string \<rightharpoonup> pyval"
type_synonym geom = "string \<rightharpoonup> ring list"

text \<open>
  A feature is a dict; \<open>None\<close> in a field stands for a feature without that key.
  The geometry is a dict too: the observed failures are geometries without \<open>'rings'\<close>.
\<close>

record feature =
  attributes :: "attrs option"
  geometry :: "geom option"

text \<open>
  The two pyproj objects are taken as parameters:
  \<open>Transformer.from_crs("ESRI:102008","EPSG:4326").transform\<close>, which gives infinities for a
  point it cannot reproject, and \<open>Geod(ellps='WGS84').inv\<close>, which returns forward azimuth,
  back azimuth and distance, NaN where it has no answer.
\<close>

type_synonym transformer = "pyfloat \<Rightarrow> pyfloat \<Rightarrow> pyfloat \<times> pyfloat"
type_synonym geod =
  "pyfloat \<Rightarrow> pyfloat \<Rightarrow> pyfloat \<Rightarrow> pyfloat \<Rightarrow> pyfloat \<times> pyfloat \<times> pyfloat"

section \<open>Indexing and comparison as Python does them\<close>

definition getitem :: "'a list \<Rightarrow> nat \<Rightarrow> error + 'a" where
  "getitem xs i = (if i < length xs then Inr (xs ! i) else Inl IndexError)"

definition lookup :: "(string \<rightharpoonup> 'v) \<Rightarrow> string \<Rightarrow> error + 'v" where
  "lookup d k = (case d k of None \<Rightarrow> Inl (KeyError k) | Some v \<Rightarrow> Inr v)"

definition field :: "'v option \<Rightarrow> string \<Rightarrow> error + 'v" where
  "field v k = (case v of None \<Rightarrow> Inl (KeyError k) | Some x \<Rightarrow> Inr x)"

definition quoted :: "string \<Rightarrow> string" where
  "quoted s = CHR 0x27 # s @ [CHR 0x27]"

fun type_name :: "pyval \<Rightarrow> string" where
  "type_name (PyInt i) = ''int''"
| "type_name (PyFloat r) = ''float''"
| "type_name (PyStr s) = ''str''"
| "type_name PyNone = ''NoneType''"
| "type_name (PyTuple p) = ''tuple''"

definition not_supported :: "string \<Rightarrow> string \<Rightarrow> string \<Rightarrow> error" where
  "not_supported opr l r =
     TypeError (quoted opr @ '' not supported between instances of '' @ quoted l @ '' and '' @ quoted r)"

text \<open>
  \<open>v > x\<close> and \<open>v <= x\<close> for a value \<open>v\<close> and a float \<open>x\<close>. Python compares an int with a
  float by value.
\<close>

fun py_gt :: "pyval \<Rightarrow> pyfloat \<Rightarrow> error + bool" where
  "py_gt (PyInt i) x = Inr (float_gt (Finite (real_of_int i)) x)"
| "py_gt (PyFloat r) x = Inr (float_gt r x)"
| "py_gt v x = Inl (not_supported ''>'' (type_name v) ''float'')"

fun py_le :: "pyval \<Rightarrow> pyfloat \<Rightarrow> error + bool" where
  "py_le (PyInt i) x = Inr (float_le (Finite (real_of_int i)) x)"
| "py_le (PyFloat r) x = Inr (float_le r x)"
| "py_le v x = Inl (not_supported ''<='' (type_name v) ''float'')"

text \<open>
  The chained comparison \<open>1963 <= wf_year <= 2023\<close>: \<open>1963 <= wf_year and wf_year <= 2023\<close>.
  When the first comparison raises, the operands are an int and the value.
\<close>

fun year_in_bounds :: "pyval \<Rightarrow> error + bool" where
  "year_in_bounds (PyInt y) = Inr (1963 \<le> y \<and> y \<le> 2023)"
| "year_in_bounds (PyFloat y) = Inr (float_le (Finite 1963) y \<and> float_le y (Finite 2023))"
| "year_in_bounds v = Inl (not_supported ''<='' ''int'' (type_name v))"

fun str_error :: "error \<Rightarrow> string" where
  "str_error (KeyError k) = quoted k"
| "str_error IndexError = ''list index out of range''"
| "str_error (TypeError m) = m"

section \<open>Coordinate reprojection\<close>

text \<open>
  The variables of \<open>convert_ring_to_epsg4326\<close>: the argument and the list it builds.
  The \<open>for\<close> loop reads the argument by position, as Python's list iterator does.
  The argument is the caller's list object, so the loop hands back the state in which it
  leaves it, also when it raises.
\<close>

record conv_state =
  ring_data :: ring
  converted_ring :: "point list"

function conv_loop ::
    "transformer \<Rightarrow> nat \<Rightarrow> conv_state \<Rightarrow> error \<times> conv_state + conv_state" where
  "conv_loop to_epsg4326 i st =
     (if i < length (ring_data st) then
        (let coord = ring_data st ! i in
         (case getitem coord 0 of Inl e \<Rightarrow> Inl (e, st) | Inr x \<Rightarrow>
         (case getitem coord 1 of Inl e \<Rightarrow> Inl (e, st) | Inr y \<Rightarrow>
           (let new_coord = to_epsg4326 x y in
            conv_loop to_epsg4326 (Suc i)
              (st\<lparr>converted_ring := converted_ring st @ [new_coord]\<rparr>)))))
      else Inr st)"
  by pat_completeness auto
termination
  by (relation "measure (\<lambda>(t, i, st). length (ring_data st) - i)") auto

text \<open>A call: the argument is bound, \<open>converted_ring = list()\<close>, then the loop runs.\<close>

definition convert_ring_run :: "transformer \<Rightarrow> ring \<Rightarrow> error \<times> conv_state + conv_state" where
  "convert_ring_run to_epsg4326 rd =
     conv_loop to_epsg4326 0 \<lparr>ring_data = rd, converted_ring = []\<rparr>"

text \<open>What the caller receives: the exception, or the list returned.\<close>

definition convert_ring_to_epsg4326 :: "transformer \<Rightarrow> ring \<Rightarrow> error + point list" where
  "convert_ring_to_epsg4326 to_epsg4326 rd =
     (case convert_ring_run to_epsg4326 rd of
        Inl (e, st) \<Rightarrow> Inl e
      | Inr st \<Rightarrow> Inr (converted_ring st))"

section \<open>Nearest perimeter point\<close>

definition distance_in_miles :: "geod \<Rightarrow> point \<Rightarrow> point \<Rightarrow> pyfloat" where
  "distance_in_miles geodcalc place point =
     (let d = geodcalc (snd place) (fst place) (snd point) (fst point)
      in float_times (snd (snd d)) (Finite 0.00062137))"

text \<open>
  The scan over the converted ring; \<open>closest_point\<close> is the Python list that is empty or
  holds the distance and the point.
\<close>

fun scan_ring :: "geod \<Rightarrow> point \<Rightarrow> point list \<Rightarrow> pyval list \<Rightarrow> error + pyval list" where
  "scan_ring geodcalc place [] closest_point = Inr closest_point"
| "scan_ring geodcalc place (point # ring) closest_point =
     (let dm = distance_in_miles geodcalc place point in
      if closest_point = [] then
        scan_ring geodcalc place ring ((closest_point @ [PyFloat dm]) @ [PyTuple point])
      else
        (case getitem closest_point 0 of Inl e \<Rightarrow> Inl e | Inr c \<Rightarrow>
        (case py_gt c dm of Inl e \<Rightarrow> Inl e | Inr closer \<Rightarrow>
           if closer then scan_ring geodcalc place ring (([] @ [PyFloat dm]) @ [PyTuple point])
           else scan_ring geodcalc place ring closest_point)))"

text \<open>
  A call of \<open>shortest_distance_from_place_to_fire_perimeter\<close>. Its argument is the caller's
  list object, handed on to \<open>convert_ring_to_epsg4326\<close>; the scan runs over the list that
  call returned. The result carries the argument as the call leaves it.
\<close>

definition shortest_distance_run ::
    "transformer \<Rightarrow> geod \<Rightarrow> point \<Rightarrow> ring \<Rightarrow> error \<times> ring + ring \<times> pyval list" where
  "shortest_distance_run to_epsg4326 geodcalc place rd =
     (case convert_ring_run to_epsg4326 rd of
        Inl (e, st) \<Rightarrow> Inl (e, ring_data st)
      | Inr st \<Rightarrow>
          (case scan_ring geodcalc place (converted_ring st) [] of
             Inl e \<Rightarrow> Inl (e, ring_data st)
           | Inr closest_point \<Rightarrow> Inr (ring_data st, closest_point)))"

text \<open>What the caller receives: the exception, or \<open>closest_point\<close>.\<close>

definition shortest_distance_from_place_to_fire_perimeter ::
    "transformer \<Rightarrow> geod \<Rightarrow> point \<Rightarrow> ring \<Rightarrow> error + pyval list" where
  "shortest_distance_from_place_to_fire_perimeter to_epsg4326 geodcalc place rd =
     (case shortest_distance_run to_epsg4326 geodcalc place rd of
        Inl (e, rd') \<Rightarrow> Inl e
      | Inr (rd', closest_point) \<Rightarrow> Inr closest_point)"

section \<open>Filter loop\<close>

definition West_Odessa_latlon :: point where
  "West_Odessa_latlon = (Finite 31.8456, Finite (-102.3676))"

text \<open>
  \<open>ring_data = feature['geometry']['rings'][0]\<close> is the feature's own list, so after the call
  the feature holds that list as the call left it.
\<close>

definition after_call :: "feature \<Rightarrow> geom \<Rightarrow> ring list \<Rightarrow> ring \<Rightarrow> feature" where
  "after_call feature g rings rd' = feature\<lparr>geometry := Some (g(''rings'' \<mapsto> rings[0 := rd']))\<rparr>"

text \<open>
  The body of the \<open>try\<close>. It reaches two objects that can change: the feature (its first
  ring goes through the call, and its attribute dict gets \<open>'Distance'\<close>) and
  \<open>attributes_list\<close>. A raise hands back the feature as it is at that moment.
\<close>

definition try_block ::
    "transformer \<Rightarrow> geod \<Rightarrow> feature \<Rightarrow> attrs list \<Rightarrow>
       error \<times> feature + feature \<times> attrs list" where
  "try_block to_epsg4326 geodcalc feature attributes_list =
     (case field (attributes feature) ''attributes'' of Inl e \<Rightarrow> Inl (e, feature) | Inr fa \<Rightarrow>
     (case lookup fa ''Fire_Year'' of Inl e \<Rightarrow> Inl (e, feature) | Inr wf_year \<Rightarrow>
     (case year_in_bounds wf_year of Inl e \<Rightarrow> Inl (e, feature) | Inr in_bounds \<Rightarrow>
      if in_bounds then
        (case field (geometry feature) ''geometry'' of Inl e \<Rightarrow> Inl (e, feature) | Inr g \<Rightarrow>
        (case lookup g ''rings'' of Inl e \<Rightarrow> Inl (e, feature) | Inr rings \<Rightarrow>
        (case getitem rings 0 of Inl e \<Rightarrow> Inl (e, feature) | Inr rd \<Rightarrow>
        (case shortest_distance_run to_epsg4326 geodcalc West_Odessa_latlon rd of
           Inl (e, rd') \<Rightarrow> Inl (e, after_call feature g rings rd')
         | Inr (rd', distance) \<Rightarrow>
        (case getitem distance 0 of
           Inl e \<Rightarrow> Inl (e, after_call feature g rings rd')
         | Inr d0 \<Rightarrow>
        (case py_le d0 (Finite 1250.00) of
           Inl e \<Rightarrow> Inl (e, after_call feature g rings rd')
         | Inr near \<Rightarrow>
         if near then
           (let feature_attributes = fa(''Distance'' \<mapsto> d0) in
            Inr ((after_call feature g rings rd')\<lparr>attributes := Some feature_attributes\<rparr>,
                 attributes_list @ [feature_attributes]))
         else Inr (after_call feature g rings rd', attributes_list)))))))
      else Inr (feature, attributes_list))))"

text \<open>
  The state of the loop: the features already visited, as the loop leaves them, the
  list that becomes the data frame, and what \<open>print\<close> wrote.

  \<open>attributes_list\<close> holds the attribute dicts themselves, not copies. Every feature of a
  loaded file has a dict of its own, and the loop writes into a dict only in the iteration
  that appends it, so the row kept here is the dict as it stands when the loop ends.
\<close>

record pipeline_state =
  gj_features :: "feature list"
  attributes_list :: "attrs list"
  console :: "string list"

definition loop_body ::
    "transformer \<Rightarrow> geod \<Rightarrow> pipeline_state \<Rightarrow> feature \<Rightarrow> pipeline_state" where
  "loop_body to_epsg4326 geodcalc st feature =
     (case try_block to_epsg4326 geodcalc feature (attributes_list st) of
        Inl (e, feature') \<Rightarrow>
          st\<lparr>gj_features := gj_features st @ [feature'],
             console := console st @ [''An error occurred : '' @ str_error e]\<rparr>
      | Inr (feature', al) \<Rightarrow>
          st\<lparr>gj_features := gj_features st @ [feature'], attributes_list := al\<rparr>)"

fun filter_loop ::
    "transformer \<Rightarrow> geod \<Rightarrow> feature list \<Rightarrow> pipeline_state \<Rightarrow> pipeline_state" where
  "filter_loop to_epsg4326 geodcalc [] st = st"
| "filter_loop to_epsg4326 geodcalc (feature # rest) st =
     filter_loop to_epsg4326 geodcalc rest (loop_body to_epsg4326 geodcalc st feature)"

text \<open>Before the loop: \<open>attributes_list = []\<close>, no feature visited, nothing printed.\<close>

definition initial_state :: pipeline_state where
  "initial_state = \<lparr>gj_features = [], attributes_list = [], console = []\<rparr>"

definition pipeline :: "transformer \<Rightarrow> geod \<Rightarrow> feature list \<Rightarrow> pipeline_state" where
  "pipeline to_epsg4326 geodcalc features =
     filter_loop to_epsg4326 geodcalc features initial_state"

section \<open>Concrete inputs\<close>

text \<open>
  Two simple functions that stand in for the pyproj objects where the model is run on
  concrete inputs. The transformer is a linear map from projected metres to degrees within
  100000 km of the origin and gives infinities elsewhere, as pyproj does for a point it
  cannot reproject. The distance is 1000 miles per degree of latitude or longitude, and NaN
  when a coordinate is not finite.
\<close>

definition demo_transform :: transformer where
  "demo_transform x y =
     (case (x, y) of
        (Finite a, Finite b) \<Rightarrow>
          if \<bar>a\<bar> \<le> 100000000 \<and> \<bar>b\<bar> \<le> 100000000
          then (Finite (b / 100000), Finite (a / 100000))
          else (PosInf, PosInf)
      | _ \<Rightarrow> (PosInf, PosInf))"

definition demo_inv :: geod where
  "demo_inv lon1 lat1 lon2 lat2 =
     (case (lon1, lat1, lon2, lat2) of
        (Finite a, Finite b, Finite c, Finite d) \<Rightarrow>
          (Finite 0, Finite 0, Finite ((\<bar>c - a\<bar> + \<bar>d - b\<bar>) * (100000000000 / 62137)))
      | _ \<Rightarrow> (NaN, NaN, NaN))"

text \<open>
  Two rings. The first has two vertices, 78 and 122 miles from the place. The second has
  three, 20, 10 and 10 miles away: its second and third vertices tie.
\<close>

definition demo_ring :: ring where
  "demo_ring = [[Finite (-10240000), Finite 3180000], [Finite (-10230000), Finite 3190000]]"

definition demo_ring_tie :: ring where
  "demo_ring_tie =
     [[Finite (-10236760), Finite 3182560], [Finite (-10236760), Finite 3185560],
      [Finite (-10236760), Finite 3183560]]"

text \<open>
  Four features: one whose first ring comes within 10 miles (and that has a second ring), one
  whose geometry has no \<open>'rings'\<close>, one 2000 miles away, and one from the first year of the
  bound whose only vertex is exactly 1250 miles away.
\<close>

definition demo_near :: feature where
  "demo_near =
     \<lparr>attributes = Some [''OBJECTID'' \<mapsto> PyInt 1, ''Fire_Year'' \<mapsto> PyInt 2000],
      geometry = Some [''rings'' \<mapsto>
        [[[Finite (-10236760), Finite 3182560], [Finite (-10236760), Finite 3185560],
          [Finite (-10236760), Finite 3183560]],
         [[Finite (-10236760), Finite 3184560]]]]\<rparr>"

definition demo_no_rings :: feature where
  "demo_no_rings =
     \<lparr>attributes = Some [''OBJECTID'' \<mapsto> PyInt 2, ''Fire_Year'' \<mapsto> PyInt 2001],
      geometry = Some [''curveRings'' \<mapsto> [[[Finite (-10236760), Finite 3184560]]]]\<rparr>"

definition demo_far :: feature where
  "demo_far =
     \<lparr>attributes = Some [''OBJECTID'' \<mapsto> PyInt 3, ''Fire_Year'' \<mapsto> PyInt 2005],
      geometry = Some [''rings'' \<mapsto> [[[Finite (-10236760), Finite 3384560]]]]\<rparr>"

definition demo_threshold :: feature where
  "demo_threshold =
     \<lparr>attributes = Some [''OBJECTID'' \<mapsto> PyInt 4, ''Fire_Year'' \<mapsto> PyInt 1963],
      geometry = Some [''rings'' \<mapsto> [[[Finite (-10236760), Finite 3309560]]]]\<rparr>"

section \<open>Putting loop states side by side\<close>

text \<open>
  The loop only ever appends to its three lists, so the state after a run is the state
  before it followed by what the run adds. \<open>joined\<close> is that concatenation.
\<close>

definition joined :: "pipeline_state \<Rightarrow> pipeline_state \<Rightarrow> pipeline_state" where
  "joined a b =
     \<lparr>gj_features = gj_features a @ gj_features b,
      attributes_list = attributes_list a @ attributes_list b,
      console = console a @ console b\<rparr>"

section \<open>Order facts on floats\<close>

lemma float_gt_irrefl: "\<not> float_gt a a"
  by (cases a) simp_all

lemma float_le_refl: "a \<noteq> NaN \<Longrightarrow> float_le a a"
  by (cases a) simp_all

lemma float_not_gt: "a \<noteq> NaN \<Longrightarrow> b \<noteq> NaN \<Longrightarrow> \<not> float_gt a b \<Longrightarrow> float_le a b"
  by (cases a; cases b) simp_all

lemma float_gt_imp_le: "float_gt a b \<Longrightarrow> float_le b a"
  by (cases a; cases b) simp_all

lemma float_gt_not_NaN: "float_gt a b \<Longrightarrow> a \<noteq> NaN \<and> b \<noteq> NaN"
  by (cases a; cases b) simp_all

lemma float_le_trans: "float_le a b \<Longrightarrow> float_le b c \<Longrightarrow> float_le a c"
  by (cases a; cases b; cases c) simp_all

lemma float_gt_le_trans: "float_gt a b \<Longrightarrow> float_le c b \<Longrightarrow> float_gt a c"
  by (cases a; cases b; cases c) simp_all

lemma float_times_miles_NaN: "float_times a (Finite 0.00062137) = NaN \<longleftrightarrow> a = NaN"
  by (cases a) simp_all

lemma float_gt_NaN [simp]: "\<not> float_gt a NaN"
  by (cases a) simp_all

section \<open>The reprojection loop\<close>

declare conv_loop.simps [simp del]

lemma conv_loop_frame:
  "conv_loop t i st = Inr st' \<or> conv_loop t i st = Inl (e, st') \<Longrightarrow>
   ring_data st' = ring_data st"
proof (induction t i st rule: conv_loop.induct)
  case (1 t i st)
  show ?case
  proof (cases "i < length (ring_data st)")
    case False
    with "1.prems" show ?thesis by (auto simp: conv_loop.simps)
  next
    case True
    let ?c = "ring_data st ! i"
    show ?thesis
    proof (cases "getitem ?c 0")
      case (Inl e0)
      with "1.prems" True show ?thesis by (auto simp: conv_loop.simps)
    next
      case x: (Inr x)
      show ?thesis
      proof (cases "getitem ?c 1")
        case (Inl e1)
        with "1.prems" True x show ?thesis by (auto simp: conv_loop.simps)
      next
        case y: (Inr y)
        from "1.prems" True x y have
          "conv_loop t (Suc i) (st\<lparr>converted_ring := converted_ring st @ [t x y]\<rparr>) = Inr st' \<or>
           conv_loop t (Suc i) (st\<lparr>converted_ring := converted_ring st @ [t x y]\<rparr>) = Inl (e, st')"
          by (subst (asm) (1 2) conv_loop.simps) (simp add: Let_def)
        from "1.IH" [OF True refl x y refl this] show ?thesis by simp
      qed
    qed
  qed
qed

lemma conv_loop_total:
  "\<forall>c \<in> set (drop i (ring_data st)). 2 \<le> length c \<Longrightarrow>
   conv_loop t i st =
     Inr (st\<lparr>converted_ring := converted_ring st @ map (\<lambda>c. t (c ! 0) (c ! 1)) (drop i (ring_data st))\<rparr>)"
proof (induction t i st rule: conv_loop.induct)
  case (1 t i st)
  show ?case
  proof (cases "i < length (ring_data st)")
    case False
    then show ?thesis by (simp add: conv_loop.simps)
  next
    case True
    let ?c = "ring_data st ! i"
    from True have d: "drop i (ring_data st) = ?c # drop (Suc i) (ring_data st)"
      by (simp add: Cons_nth_drop_Suc)
    with "1.prems" have len: "2 \<le> length ?c"
      and rest: "\<forall>c \<in> set (drop (Suc i) (ring_data st)). 2 \<le> length c" by simp_all
    from len have x: "getitem ?c 0 = Inr (?c ! 0)" and y: "getitem ?c 1 = Inr (?c ! 1)"
      by (auto simp: getitem_def)
    have "conv_loop t i st =
        conv_loop t (Suc i) (st\<lparr>converted_ring := converted_ring st @ [t (?c ! 0) (?c ! 1)]\<rparr>)"
      using True x y by (subst conv_loop.simps) (simp add: Let_def)
    also have "\<dots> = Inr (st\<lparr>converted_ring := converted_ring st @ map (\<lambda>c. t (c ! 0) (c ! 1)) (drop i (ring_data st))\<rparr>)"
      using "1.IH" [OF True refl x y refl] rest d by simp
    finally show ?thesis .
  qed
qed

lemma convert_ring_run_frame:
  "convert_ring_run t rd = Inr st \<or> convert_ring_run t rd = Inl (e, st) \<Longrightarrow> ring_data st = rd"
  using conv_loop_frame [of t 0 "\<lparr>ring_data = rd, converted_ring = []\<rparr>" st e]
  by (simp add: convert_ring_run_def)

lemma shortest_distance_run_frame:
  "shortest_distance_run t g place rd = Inr (rd', cp) \<or>
   shortest_distance_run t g place rd = Inl (e, rd') \<Longrightarrow> rd' = rd"
  by (auto simp: shortest_distance_run_def split: sum.splits prod.splits
      dest: convert_ring_run_frame [OF disjI1] convert_ring_run_frame [OF disjI2])

lemma convert_ring_run_total:
  assumes "\<forall>c \<in> set rd. 2 \<le> length c"
  shows "convert_ring_run t rd =
    Inr \<lparr>ring_data = rd, converted_ring = map (\<lambda>c. t (c ! 0) (c ! 1)) rd\<rparr>"
  using conv_loop_total [of 0 "\<lparr>ring_data = rd, converted_ring = []\<rparr>" t] assms
  by (simp add: convert_ring_run_def)

lemma convert_ring_total:
  assumes "\<forall>c \<in> set rd. 2 \<le> length c"
  shows "convert_ring_to_epsg4326 t rd = Inr (map (\<lambda>c. t (c ! 0) (c ! 1)) rd)"
  by (simp add: convert_ring_to_epsg4326_def convert_ring_run_total [OF assms])

text \<open>The call and what the caller receives.\<close>

lemma shortest_distance_value:
  "shortest_distance_from_place_to_fire_perimeter t g place rd =
     (case convert_ring_to_epsg4326 t rd of
        Inl e \<Rightarrow> Inl e
      | Inr ring \<Rightarrow> scan_ring g place ring [])"
  by (simp add: shortest_distance_from_place_to_fire_perimeter_def shortest_distance_run_def
      convert_ring_to_epsg4326_def split: sum.splits prod.splits)

lemma shortest_distance_run_value:
  "shortest_distance_run t g place rd =
     (case shortest_distance_from_place_to_fire_perimeter t g place rd of
        Inl e \<Rightarrow> Inl (e, rd)
      | Inr cp \<Rightarrow> Inr (rd, cp))"
proof (cases "shortest_distance_run t g place rd")
  case (Inl a)
  obtain e rd' where a: "a = (e, rd')" by (cases a)
  with Inl shortest_distance_run_frame [of t g place rd rd' undefined e] have "rd' = rd" by simp
  with Inl a show ?thesis by (simp add: shortest_distance_from_place_to_fire_perimeter_def)
next
  case (Inr b)
  obtain rd' cp where b: "b = (rd', cp)" by (cases b)
  with Inr shortest_distance_run_frame [of t g place rd rd' cp undefined] have "rd' = rd" by simp
  with Inr b show ?thesis by (simp add: shortest_distance_from_place_to_fire_perimeter_def)
qed

section \<open>The scan\<close>

lemma scan_ring_step:
  "scan_ring g place (q # ring) [PyFloat d, PyTuple p] =
     (if float_gt d (distance_in_miles g place q)
      then scan_ring g place ring [PyFloat (distance_in_miles g place q), PyTuple q]
      else scan_ring g place ring [PyFloat d, PyTuple p])"
  by (simp add: getitem_def Let_def)

lemma scan_ring_first:
  "scan_ring g place (q # ring) [] =
     scan_ring g place ring [PyFloat (distance_in_miles g place q), PyTuple q]"
  by (simp add: Let_def)

text \<open>A NaN in \<open>closest_point\<close> is never replaced: no distance compares below it.\<close>

lemma scan_ring_NaN:
  "scan_ring g place ring [PyFloat NaN, PyTuple p] = Inr [PyFloat NaN, PyTuple p]"
  by (induction ring) (simp_all del: scan_ring.simps(2) add: scan_ring_step)

text \<open>The scan always returns, with a list of the same shape.\<close>

lemma scan_ring_returns:
  "\<exists>d' p'. scan_ring g place ring [PyFloat d, PyTuple p] = Inr [PyFloat d', PyTuple p']"
proof (induction ring arbitrary: d p)
  case Nil
  show ?case by simp
next
  case (Cons q ring)
  show ?case
    using Cons.IH [of "distance_in_miles g place q" q] Cons.IH [of d p]
    by (simp del: scan_ring.simps add: scan_ring_step)
qed

text \<open>
  What the scan returns from a \<open>closest_point\<close> whose distance is a number: a distance that
  is a number and is least among the numbers, and the first point that has it.
\<close>

lemma scan_ring_filled:
  assumes "d \<noteq> NaN"
  shows "\<exists>d' p'. scan_ring g place ring [PyFloat d, PyTuple p] = Inr [PyFloat d', PyTuple p'] \<and>
     d' \<noteq> NaN \<and> float_le d' d \<and>
     (\<forall>q \<in> set ring. distance_in_miles g place q \<noteq> NaN \<longrightarrow>
        float_le d' (distance_in_miles g place q)) \<and>
     ((d' = d \<and> p' = p) \<or>
      (d' \<noteq> d \<and> (\<exists>i < length ring. ring ! i = p' \<and> distance_in_miles g place p' = d' \<and>
         (\<forall>j < i. distance_in_miles g place (ring ! j) \<noteq> d'))))"
  using assms
proof (induction ring arbitrary: d p)
  case Nil
  then show ?case by (simp add: float_le_refl)
next
  case (Cons q ring)
  let ?m = "distance_in_miles g place"
  show ?case
  proof (cases "float_gt d (?m q)")
    case True
    then have mq: "?m q \<noteq> NaN" using float_gt_not_NaN by blast
    from Cons.IH [OF mq, of q] obtain d' p' where
      r: "scan_ring g place ring [PyFloat (?m q), PyTuple q] = Inr [PyFloat d', PyTuple p']" and
      n: "d' \<noteq> NaN" and le: "float_le d' (?m q)" and
      low: "\<forall>x \<in> set ring. ?m x \<noteq> NaN \<longrightarrow> float_le d' (?m x)" and
      alt: "(d' = ?m q \<and> p' = q) \<or>
        (d' \<noteq> ?m q \<and> (\<exists>i < length ring. ring ! i = p' \<and> ?m p' = d' \<and>
           (\<forall>j < i. ?m (ring ! j) \<noteq> d')))"
      by blast
    from True le have gt: "float_gt d d'" by (rule float_gt_le_trans)
    then have led: "float_le d' d" by (rule float_gt_imp_le)
    from gt have ne: "d' \<noteq> d" using float_gt_irrefl by auto
    from alt have idx: "\<exists>i < length (q # ring). (q # ring) ! i = p' \<and> ?m p' = d' \<and>
        (\<forall>j < i. ?m ((q # ring) ! j) \<noteq> d')"
    proof
      assume "d' = ?m q \<and> p' = q"
      then have "0 < length (q # ring) \<and> (q # ring) ! 0 = p' \<and> ?m p' = d' \<and>
        (\<forall>j < 0. ?m ((q # ring) ! j) \<noteq> d')" by simp
      then show ?thesis by blast
    next
      assume "d' \<noteq> ?m q \<and> (\<exists>i < length ring. ring ! i = p' \<and> ?m p' = d' \<and>
           (\<forall>j < i. ?m (ring ! j) \<noteq> d'))"
      then obtain i where neq: "d' \<noteq> ?m q" and i: "i < length ring" "ring ! i = p'" "?m p' = d'"
        "\<forall>j < i. ?m (ring ! j) \<noteq> d'" by blast
      have "\<forall>j < Suc i. ?m ((q # ring) ! j) \<noteq> d'"
      proof (intro allI impI)
        fix j assume "j < Suc i"
        then show "?m ((q # ring) ! j) \<noteq> d'" using neq i(4) by (cases j) auto
      qed
      with i have "Suc i < length (q # ring) \<and> (q # ring) ! Suc i = p' \<and> ?m p' = d' \<and>
        (\<forall>j < Suc i. ?m ((q # ring) ! j) \<noteq> d')" by simp
      then show ?thesis by blast
    qed
    from True r have "scan_ring g place (q # ring) [PyFloat d, PyTuple p] =
        Inr [PyFloat d', PyTuple p']"
      by (simp del: scan_ring.simps add: scan_ring_step)
    moreover from low le have "\<forall>x \<in> set (q # ring). ?m x \<noteq> NaN \<longrightarrow> float_le d' (?m x)"
      by simp
    ultimately show ?thesis using n led ne idx by blast
  next
    case False
    from Cons.IH [OF Cons.prems, of p] obtain d' p' where
      r: "scan_ring g place ring [PyFloat d, PyTuple p] = Inr [PyFloat d', PyTuple p']" and
      n: "d' \<noteq> NaN" and le: "float_le d' d" and
      low: "\<forall>x \<in> set ring. ?m x \<noteq> NaN \<longrightarrow> float_le d' (?m x)" and
      alt: "(d' = d \<and> p' = p) \<or>
        (d' \<noteq> d \<and> (\<exists>i < length ring. ring ! i = p' \<and> ?m p' = d' \<and>
           (\<forall>j < i. ?m (ring ! j) \<noteq> d')))"
      by blast
    have leq: "?m q \<noteq> NaN \<longrightarrow> float_le d' (?m q)"
    proof
      assume "?m q \<noteq> NaN"
      with Cons.prems False have "float_le d (?m q)" by (simp add: float_not_gt)
      with le show "float_le d' (?m q)" by (rule float_le_trans)
    qed
    from False r have res: "scan_ring g place (q # ring) [PyFloat d, PyTuple p] =
        Inr [PyFloat d', PyTuple p']"
      by (simp del: scan_ring.simps add: scan_ring_step)
    from low leq have low': "\<forall>x \<in> set (q # ring). ?m x \<noteq> NaN \<longrightarrow> float_le d' (?m x)"
      by simp
    from alt show ?thesis
    proof
      assume "d' = d \<and> p' = p"
      with res n le low' show ?thesis by blast
    next
      assume "d' \<noteq> d \<and> (\<exists>i < length ring. ring ! i = p' \<and> ?m p' = d' \<and>
           (\<forall>j < i. ?m (ring ! j) \<noteq> d'))"
      then obtain i where ne: "d' \<noteq> d" and i: "i < length ring" "ring ! i = p'" "?m p' = d'"
        "\<forall>j < i. ?m (ring ! j) \<noteq> d'" by blast
      have neq: "?m q \<noteq> d'"
      proof
        assume eq: "?m q = d'"
        with n leq have "float_le d' d'" by simp
        from Cons.prems n le ne have "float_gt d d'"
          by (cases d; cases d') auto
        with eq False show False by simp
      qed
      have "\<forall>j < Suc i. ?m ((q # ring) ! j) \<noteq> d'"
      proof (intro allI impI)
        fix j assume "j < Suc i"
        then show "?m ((q # ring) ! j) \<noteq> d'" using neq i(4) by (cases j) auto
      qed
      with i have "Suc i < length (q # ring) \<and> (q # ring) ! Suc i = p' \<and> ?m p' = d' \<and>
        (\<forall>j < Suc i. ?m ((q # ring) ! j) \<noteq> d')" by simp
      with res n le low' ne show ?thesis by blast
    qed
  qed
qed

text \<open>
  From the empty \<open>closest_point\<close>, when the first distance is a number: the first vertex
  that attains the least distance.
\<close>

lemma scan_ring_nearest:
  assumes "ring \<noteq> []" and "distance_in_miles g place (ring ! 0) \<noteq> NaN"
  shows "\<exists>i < length ring.
     scan_ring g place ring [] =
       Inr [PyFloat (distance_in_miles g place (ring ! i)), PyTuple (ring ! i)] \<and>
     distance_in_miles g place (ring ! i) \<noteq> NaN \<and>
     (\<forall>j < length ring. distance_in_miles g place (ring ! j) \<noteq> NaN \<longrightarrow>
        float_le (distance_in_miles g place (ring ! i)) (distance_in_miles g place (ring ! j))) \<and>
     (\<forall>j < i. distance_in_miles g place (ring ! j) \<noteq> distance_in_miles g place (ring ! i))"
proof -
  let ?m = "distance_in_miles g place"
  from assms(1) obtain q rest where ring: "ring = q # rest" by (cases ring) auto
  with assms(2) have mq: "?m q \<noteq> NaN" by simp
  from scan_ring_filled [OF mq, of g place rest q] obtain d' p' where
    r: "scan_ring g place rest [PyFloat (?m q), PyTuple q] = Inr [PyFloat d', PyTuple p']" and
    n: "d' \<noteq> NaN" and le: "float_le d' (?m q)" and
    low: "\<forall>x \<in> set rest. ?m x \<noteq> NaN \<longrightarrow> float_le d' (?m x)" and
    alt: "(d' = ?m q \<and> p' = q) \<or>
      (d' \<noteq> ?m q \<and> (\<exists>i < length rest. rest ! i = p' \<and> ?m p' = d' \<and>
         (\<forall>j < i. ?m (rest ! j) \<noteq> d')))"
    by blast
  from low le have "\<forall>x \<in> set ring. ?m x \<noteq> NaN \<longrightarrow> float_le d' (?m x)" by (simp add: ring)
  then have low': "\<forall>j < length ring. ?m (ring ! j) \<noteq> NaN \<longrightarrow> float_le d' (?m (ring ! j))"
    using nth_mem by blast
  from r have res: "scan_ring g place ring [] = Inr [PyFloat d', PyTuple p']"
    by (simp del: scan_ring.simps add: ring scan_ring_first)
  from alt show ?thesis
  proof
    assume a: "d' = ?m q \<and> p' = q"
    then have "ring ! 0 = p'" and "?m (ring ! 0) = d'" by (simp_all add: ring)
    with res n low' have "0 < length ring \<and>
      scan_ring g place ring [] = Inr [PyFloat (?m (ring ! 0)), PyTuple (ring ! 0)] \<and>
      ?m (ring ! 0) \<noteq> NaN \<and>
      (\<forall>j < length ring. ?m (ring ! j) \<noteq> NaN \<longrightarrow> float_le (?m (ring ! 0)) (?m (ring ! j))) \<and>
      (\<forall>j < 0. ?m (ring ! j) \<noteq> ?m (ring ! 0))"
      by (simp add: ring)
    then show ?thesis by blast
  next
    assume "d' \<noteq> ?m q \<and> (\<exists>i < length rest. rest ! i = p' \<and> ?m p' = d' \<and>
         (\<forall>j < i. ?m (rest ! j) \<noteq> d'))"
    then obtain i where neq: "d' \<noteq> ?m q" and i: "i < length rest" "rest ! i = p'" "?m p' = d'"
      "\<forall>j < i. ?m (rest ! j) \<noteq> d'" by blast
    have before: "\<forall>j < Suc i. ?m (ring ! j) \<noteq> d'"
    proof (intro allI impI)
      fix j assume "j < Suc i"
      then show "?m (ring ! j) \<noteq> d'" using neq i(4) by (cases j) (auto simp: ring)
    qed
    from i have here: "p' = ring ! Suc i" "d' = ?m (ring ! Suc i)" by (simp_all add: ring)
    from i(1) have len: "Suc i < length ring" by (simp add: ring)
    from res n low' before have "scan_ring g place ring [] =
        Inr [PyFloat (?m (ring ! Suc i)), PyTuple (ring ! Suc i)] \<and>
      ?m (ring ! Suc i) \<noteq> NaN \<and>
      (\<forall>j < length ring. ?m (ring ! j) \<noteq> NaN \<longrightarrow>
         float_le (?m (ring ! Suc i)) (?m (ring ! j))) \<and>
      (\<forall>j < Suc i. ?m (ring ! j) \<noteq> ?m (ring ! Suc i))"
      unfolding here by simp
    with len show ?thesis by blast
  qed
qed

lemma scan_ring_shape:
  "scan_ring g place ring [] = Inr xs \<Longrightarrow> xs = [] \<or> (\<exists>d p. xs = [PyFloat d, PyTuple p])"
proof (cases ring)
  case Nil
  assume "scan_ring g place ring [] = Inr xs"
  with Nil show ?thesis by simp
next
  case (Cons q rest)
  assume r: "scan_ring g place ring [] = Inr xs"
  from scan_ring_returns [of g place rest "distance_in_miles g place q" q] obtain d' p' where
    "scan_ring g place rest [PyFloat (distance_in_miles g place q), PyTuple q] =
       Inr [PyFloat d', PyTuple p']" by blast
  with r Cons have "xs = [PyFloat d', PyTuple p']"
    by (simp del: scan_ring.simps add: scan_ring_first)
  then show ?thesis by blast
qed

lemma shortest_distance_shape:
  "shortest_distance_from_place_to_fire_perimeter t g place rd = Inr xs \<Longrightarrow>
     xs = [] \<or> (\<exists>d p. xs = [PyFloat d, PyTuple p])"
  by (auto simp: shortest_distance_value split: sum.splits dest: scan_ring_shape)

lemmas demo_eval = shortest_distance_from_place_to_fire_perimeter_def shortest_distance_run_def
  convert_ring_to_epsg4326_def convert_ring_run_def conv_loop.simps getitem_def Let_def
  demo_transform_def demo_inv_def distance_in_miles_def West_Odessa_latlon_def

section \<open>Claims about the nearest perimeter point\<close>

text \<open>
  As worded, C1 speaks of every non-empty ring. Take a ring whose first vertex cannot be
  reprojected, so that its distance is NaN, and whose second vertex is 10 miles away: no
  distance compares below NaN, so the first vertex is never replaced and the call returns
  NaN with that vertex. NaN is not at most 10.
\<close>

theorem NaN_first_counterexample:
  "shortest_distance_from_place_to_fire_perimeter demo_transform demo_inv West_Odessa_latlon
     [[Finite 1000000000, Finite 1000000000], [Finite (-10236760), Finite 3185560]] =
     Inr [PyFloat NaN, PyTuple (PosInf, PosInf)] \<and>
   demo_transform (Finite (-10236760)) (Finite 3185560) = (Finite 31.8556, Finite (-102.3676)) \<and>
   distance_in_miles demo_inv West_Odessa_latlon (Finite 31.8556, Finite (-102.3676)) = Finite 10 \<and>
   \<not> float_le NaN (Finite 10)"
  by (simp add: demo_eval)

text \<open>
  C1, as amended. For every non-empty ring (of coordinates with an x and a y) whose vertices
  all have a geodesic distance from the place that is not NaN,
  \<open>shortest_distance_from_place_to_fire_perimeter\<close> returns the list \<open>[d, p]\<close> where \<open>p\<close> is the
  reprojection of one of the ring's vertices, \<open>d\<close> is the geodesic distance from the place to
  \<open>p\<close> times 0.00062137, and \<open>d\<close> is at most that distance for every vertex of the ring.
\<close>

theorem nearest_vertex_is_minimum:
  fixes t :: transformer and g :: geod and place :: point and rd :: ring
  defines "pt \<equiv> \<lambda>i. t (rd ! i ! 0) (rd ! i ! 1)"
    and "geo \<equiv> \<lambda>q. snd (snd (g (snd place) (fst place) (snd q) (fst q)))"
  assumes "rd \<noteq> []" and "\<forall>c \<in> set rd. 2 \<le> length c"
    and "\<forall>j < length rd. geo (pt j) \<noteq> NaN"
  shows "\<exists>i < length rd.
     shortest_distance_from_place_to_fire_perimeter t g place rd =
       Inr [PyFloat (float_times (geo (pt i)) (Finite 0.00062137)), PyTuple (pt i)] \<and>
     (\<forall>j < length rd. float_le (float_times (geo (pt i)) (Finite 0.00062137))
        (float_times (geo (pt j)) (Finite 0.00062137)))"
proof -
  let ?ring = "map (\<lambda>c. t (c ! 0) (c ! 1)) rd"
  let ?m = "distance_in_miles g place"
  have m: "?m q = float_times (geo q) (Finite 0.00062137)" for q
    by (simp add: distance_in_miles_def geo_def)
  have nth: "?ring ! j = pt j" if "j < length rd" for j
    using that by (simp add: pt_def)
  have num: "?m (?ring ! j) \<noteq> NaN" if "j < length rd" for j
  proof -
    from assms(5) that have "geo (pt j) \<noteq> NaN" by blast
    then have "float_times (geo (pt j)) (Finite 0.00062137) \<noteq> NaN"
      using float_times_miles_NaN [of "geo (pt j)"] by blast
    then show ?thesis by (simp only: nth [OF that] m not_False_eq_True)
  qed
  have conv: "convert_ring_to_epsg4326 t rd = Inr ?ring"
    by (rule convert_ring_total [OF assms(4)])
  from assms(3) have ne: "?ring \<noteq> []" and zero: "0 < length rd" by simp_all
  from num [OF zero] have "?m (?ring ! 0) \<noteq> NaN" .
  from scan_ring_nearest [OF ne this] obtain i where
    i: "i < length ?ring" and
    r: "scan_ring g place ?ring [] = Inr [PyFloat (?m (?ring ! i)), PyTuple (?ring ! i)]" and
    low: "\<forall>j < length ?ring. ?m (?ring ! j) \<noteq> NaN \<longrightarrow> float_le (?m (?ring ! i)) (?m (?ring ! j))"
    by blast
  from i have i': "i < length rd" by simp
  from conv r have "shortest_distance_from_place_to_fire_perimeter t g place rd =
      Inr [PyFloat (?m (?ring ! i)), PyTuple (?ring ! i)]"
    by (simp add: shortest_distance_value)
  then have res: "shortest_distance_from_place_to_fire_perimeter t g place rd =
      Inr [PyFloat (float_times (geo (pt i)) (Finite 0.00062137)), PyTuple (pt i)]"
    by (simp only: nth [OF i'] m)
  have "\<forall>j < length rd. float_le (float_times (geo (pt i)) (Finite 0.00062137))
        (float_times (geo (pt j)) (Finite 0.00062137))"
  proof (intro allI impI)
    fix j assume j: "j < length rd"
    with low num [OF j] have "float_le (?m (?ring ! i)) (?m (?ring ! j))" by simp
    then show "float_le (float_times (geo (pt i)) (Finite 0.00062137))
        (float_times (geo (pt j)) (Finite 0.00062137))"
      by (simp only: nth [OF i'] nth [OF j] m)
  qed
  with i' res show ?thesis by blast
qed


text \<open>The two-point ring, run: the first point is 78 miles away, the second 122.\<close>

lemma demo_ring_value:
  "shortest_distance_from_place_to_fire_perimeter demo_transform demo_inv West_Odessa_latlon
     demo_ring = Inr [PyFloat (Finite 78), PyTuple (Finite 31.8, Finite (-102.4))]"
  by (simp add: demo_eval demo_ring_def)

lemma demo_ring_numbers:
  "\<forall>j < length demo_ring.
     snd (snd (demo_inv (snd West_Odessa_latlon) (fst West_Odessa_latlon)
       (snd (demo_transform (demo_ring ! j ! 0) (demo_ring ! j ! 1)))
       (fst (demo_transform (demo_ring ! j ! 0) (demo_ring ! j ! 1))))) \<noteq> NaN"
  by (simp add: demo_ring_def demo_transform_def demo_inv_def West_Odessa_latlon_def
      less_Suc_eq numeral_2_eq_2)

theorem nearest_vertex_is_minimum_witness:
  "demo_ring \<noteq> [] \<and>
   (\<exists>i < length demo_ring.
     shortest_distance_from_place_to_fire_perimeter demo_transform demo_inv West_Odessa_latlon
       demo_ring =
       Inr [PyFloat (float_times
              (snd (snd (demo_inv (snd West_Odessa_latlon) (fst West_Odessa_latlon)
                (snd (demo_transform (demo_ring ! i ! 0) (demo_ring ! i ! 1)))
                (fst (demo_transform (demo_ring ! i ! 0) (demo_ring ! i ! 1))))))
              (Finite 0.00062137)),
            PyTuple (demo_transform (demo_ring ! i ! 0) (demo_ring ! i ! 1))]) \<and>
   shortest_distance_from_place_to_fire_perimeter demo_transform demo_inv West_Odessa_latlon
     demo_ring = Inr [PyFloat (Finite 78), PyTuple (Finite 31.8, Finite (-102.4))]"
proof -
  have h1: "demo_ring \<noteq> []" by (simp add: demo_ring_def)
  have h2: "\<forall>c \<in> set demo_ring. 2 \<le> length c" by (simp add: demo_ring_def)
  from nearest_vertex_is_minimum [where t = demo_transform and g = demo_inv
      and place = West_Odessa_latlon and rd = demo_ring, OF h1 h2 demo_ring_numbers]
  have "\<exists>i < length demo_ring.
     shortest_distance_from_place_to_fire_perimeter demo_transform demo_inv West_Odessa_latlon
       demo_ring =
       Inr [PyFloat (float_times
              (snd (snd (demo_inv (snd West_Odessa_latlon) (fst West_Odessa_latlon)
                (snd (demo_transform (demo_ring ! i ! 0) (demo_ring ! i ! 1)))
                (fst (demo_transform (demo_ring ! i ! 0) (demo_ring ! i ! 1))))))
              (Finite 0.00062137)),
            PyTuple (demo_transform (demo_ring ! i ! 0) (demo_ring ! i ! 1))]"
    by blast
  with h1 demo_ring_value show ?thesis by blast
qed

text \<open>
  As worded, C3 asks for an \<open>EmptyRing\<close> error on a ring with no points. The function raises
  nothing there: the loop bodies never run and the empty \<open>closest_point\<close> is returned.
\<close>

theorem empty_ring_counterexample:
  "shortest_distance_from_place_to_fire_perimeter demo_transform demo_inv West_Odessa_latlon [] =
     Inr []"
  by (simp add: shortest_distance_from_place_to_fire_perimeter_def shortest_distance_run_def
      convert_ring_run_def conv_loop.simps)

text \<open>
  C3, as amended. Calling \<open>shortest_distance_from_place_to_fire_perimeter\<close> on a ring with
  zero points raises no error: it returns the empty list, whatever the place and the
  pyproj objects are.
\<close>

theorem empty_ring_returns_empty_list:
  "shortest_distance_from_place_to_fire_perimeter t g place [] = Inr []"
  by (simp add: shortest_distance_from_place_to_fire_perimeter_def shortest_distance_run_def
      convert_ring_run_def conv_loop.simps)




lemma demo_ring_tie_distances:
  "demo_transform (demo_ring_tie ! 0 ! 0) (demo_ring_tie ! 0 ! 1) =
     (Finite 31.8256, Finite (-102.3676))"
  "demo_transform (demo_ring_tie ! 1 ! 0) (demo_ring_tie ! 1 ! 1) =
     (Finite 31.8556, Finite (-102.3676))"
  "demo_transform (demo_ring_tie ! 2 ! 0) (demo_ring_tie ! 2 ! 1) =
     (Finite 31.8356, Finite (-102.3676))"
  "distance_in_miles demo_inv West_Odessa_latlon (Finite 31.8256, Finite (-102.3676)) = Finite 20"
  "distance_in_miles demo_inv West_Odessa_latlon (Finite 31.8556, Finite (-102.3676)) = Finite 10"
  "distance_in_miles demo_inv West_Odessa_latlon (Finite 31.8356, Finite (-102.3676)) = Finite 10"
  by (simp_all add: demo_ring_tie_def demo_transform_def demo_inv_def distance_in_miles_def
      West_Odessa_latlon_def)



section \<open>Claims about the reprojection\<close>

text \<open>
  C7. \<open>convert_ring_to_epsg4326\<close> does not change its argument: when the call returns,
  \<open>ring_data\<close> holds what it held before, and the list returned was built by the call, with
  one reprojected pair for each input pair, in the same order and of the same length.
\<close>

theorem convert_ring_builds_new_list:
  assumes "\<forall>c \<in> set rd. 2 \<le> length c"
  shows "\<exists>st. convert_ring_run t rd = Inr st \<and> ring_data st = rd \<and>
     convert_ring_to_epsg4326 t rd = Inr (converted_ring st) \<and>
     length (converted_ring st) = length rd \<and>
     (\<forall>i < length rd. converted_ring st ! i = t (rd ! i ! 0) (rd ! i ! 1))"
  using convert_ring_run_total [OF assms, of t]
  by (simp add: convert_ring_to_epsg4326_def)

theorem convert_ring_builds_new_list_witness:
  "\<exists>st. convert_ring_run demo_transform demo_ring = Inr st \<and>
     ring_data st = demo_ring \<and>
     convert_ring_to_epsg4326 demo_transform demo_ring = Inr (converted_ring st) \<and>
     length (converted_ring st) = length demo_ring \<and>
     converted_ring st ! 0 = (Finite 31.8, Finite (-102.4)) \<and>
     converted_ring st ! 1 = (Finite 31.9, Finite (-102.3))"
proof -
  have h: "\<forall>c \<in> set demo_ring. 2 \<le> length c" by (simp add: demo_ring_def)
  from convert_ring_builds_new_list [OF h, of demo_transform] obtain st where
    st: "convert_ring_run demo_transform demo_ring = Inr st" "ring_data st = demo_ring"
      "convert_ring_to_epsg4326 demo_transform demo_ring = Inr (converted_ring st)"
      "length (converted_ring st) = length demo_ring"
      "\<forall>i < length demo_ring. converted_ring st ! i =
         demo_transform (demo_ring ! i ! 0) (demo_ring ! i ! 1)"
    by blast
  from st(5) have "converted_ring st ! 0 = (Finite 31.8, Finite (-102.4))"
    and "converted_ring st ! 1 = (Finite 31.9, Finite (-102.3))"
    by (simp_all add: demo_ring_def demo_transform_def)
  with st show ?thesis by blast
qed

section \<open>The body of the try\<close>

text \<open>
  The call leaves the ring as it was (\<open>shortest_distance_run_frame\<close>, from \<open>conv_loop_frame\<close>),
  so the feature holds the geometry it had.
\<close>

lemma after_call_same:
  assumes "geometry f = Some gm" and "gm ''rings'' = Some rings" and "getitem rings 0 = Inr rd"
  shows "after_call f gm rings rd = f"
proof -
  from assms(3) have "rings[0 := rd] = rings"
    by (auto simp: getitem_def split: if_splits)
  moreover from assms(2) have "gm(''rings'' \<mapsto> rings) = gm" by (rule map_upd_triv)
  ultimately show ?thesis using assms(1) by (simp add: after_call_def)
qed

text \<open>The body of the \<open>try\<close> with the call seen from its caller.\<close>

lemma try_block_eq:
  "try_block t g f al =
     (case field (attributes f) ''attributes'' of Inl e \<Rightarrow> Inl (e, f) | Inr fa \<Rightarrow>
     (case lookup fa ''Fire_Year'' of Inl e \<Rightarrow> Inl (e, f) | Inr wf_year \<Rightarrow>
     (case year_in_bounds wf_year of Inl e \<Rightarrow> Inl (e, f) | Inr in_bounds \<Rightarrow>
      if in_bounds then
        (case field (geometry f) ''geometry'' of Inl e \<Rightarrow> Inl (e, f) | Inr gm \<Rightarrow>
        (case lookup gm ''rings'' of Inl e \<Rightarrow> Inl (e, f) | Inr rings \<Rightarrow>
        (case getitem rings 0 of Inl e \<Rightarrow> Inl (e, f) | Inr rd \<Rightarrow>
        (case shortest_distance_from_place_to_fire_perimeter t g West_Odessa_latlon rd of
           Inl e \<Rightarrow> Inl (e, f)
         | Inr distance \<Rightarrow>
        (case getitem distance 0 of Inl e \<Rightarrow> Inl (e, f) | Inr d0 \<Rightarrow>
        (case py_le d0 (Finite 1250) of Inl e \<Rightarrow> Inl (e, f) | Inr near \<Rightarrow>
         if near then
           Inr (f\<lparr>attributes := Some (fa(''Distance'' \<mapsto> d0))\<rparr>, al @ [fa(''Distance'' \<mapsto> d0)])
         else Inr (f, al)))))))
      else Inr (f, al))))"
proof (cases "attributes f")
  case None
  then show ?thesis by (simp add: try_block_def field_def)
next
  case fa: (Some fa)
  show ?thesis
  proof (cases "geometry f")
    case None
    with fa show ?thesis
      by (simp add: try_block_def field_def split: sum.splits)
  next
    case gm: (Some gm)
    show ?thesis
    proof (cases "gm ''rings''")
      case None
      with fa gm show ?thesis
        by (simp add: try_block_def field_def lookup_def split: sum.splits option.splits)
    next
      case rings: (Some rings)
      show ?thesis
      proof (cases "getitem rings 0")
        case (Inl e)
        with fa gm rings show ?thesis
          by (simp add: try_block_def field_def lookup_def split: sum.splits option.splits)
      next
        case rd: (Inr rd)
        have same: "after_call f gm rings rd = f"
          using gm rings rd by (rule after_call_same)
        from fa gm rings rd show ?thesis
          by (simp add: try_block_def field_def lookup_def shortest_distance_run_value same
              Let_def split: sum.splits option.splits)
      qed
    qed
  qed
qed

text \<open>The outcomes of the body of the \<open>try\<close>.\<close>

lemma try_block_retains:
  assumes "attributes f = Some fa" and "fa ''Fire_Year'' = Some y"
    and "year_in_bounds y = Inr True"
    and "geometry f = Some gm" and "gm ''rings'' = Some (rd # rs)"
    and "shortest_distance_from_place_to_fire_perimeter t g West_Odessa_latlon rd =
           Inr [PyFloat d, PyTuple p]"
  shows "try_block t g f al =
     (if float_le d (Finite 1250) then
        Inr (f\<lparr>attributes := Some (fa(''Distance'' \<mapsto> PyFloat d))\<rparr>,
             al @ [fa(''Distance'' \<mapsto> PyFloat d)])
      else Inr (f, al))"
  using assms by (simp add: try_block_eq field_def lookup_def getitem_def)

lemma try_block_Inr:
  assumes "try_block t g f al = Inr (f', al')"
  shows "(f' = f \<and> al' = al) \<or>
     (\<exists>fa y gm rd rs d p. attributes f = Some fa \<and> fa ''Fire_Year'' = Some y \<and>
        year_in_bounds y = Inr True \<and> geometry f = Some gm \<and> gm ''rings'' = Some (rd # rs) \<and>
        shortest_distance_from_place_to_fire_perimeter t g West_Odessa_latlon rd =
          Inr [PyFloat d, PyTuple p] \<and> float_le d (Finite 1250) \<and>
        f' = f\<lparr>attributes := Some (fa(''Distance'' \<mapsto> PyFloat d))\<rparr> \<and>
        al' = al @ [fa(''Distance'' \<mapsto> PyFloat d)])"
proof (cases "f' = f \<and> al' = al")
  case True
  then show ?thesis by simp
next
  case False
  note tb = assms [unfolded try_block_eq]
  from tb obtain fa where fa: "attributes f = Some fa"
    by (cases "attributes f") (simp_all add: field_def)
  from tb fa obtain y where y: "fa ''Fire_Year'' = Some y"
    by (cases "fa ''Fire_Year''") (simp_all add: field_def lookup_def)
  from tb fa y obtain b where b: "year_in_bounds y = Inr b"
    by (cases "year_in_bounds y") (simp_all add: field_def lookup_def)
  from tb fa y b False have bt: "b"
    by (cases b) (auto simp: field_def lookup_def)
  from tb fa y b bt obtain gm where gm: "geometry f = Some gm"
    by (cases "geometry f") (simp_all add: field_def lookup_def)
  from tb fa y b bt gm obtain rings where rings: "gm ''rings'' = Some rings"
    by (cases "gm ''rings''") (simp_all add: field_def lookup_def)
  from tb fa y b bt gm rings obtain rd rs where rd: "rings = rd # rs"
    by (cases rings) (simp_all add: field_def lookup_def getitem_def)
  from tb fa y b bt gm rings rd obtain xs where
    xs: "shortest_distance_from_place_to_fire_perimeter t g West_Odessa_latlon rd = Inr xs"
    by (cases "shortest_distance_from_place_to_fire_perimeter t g West_Odessa_latlon rd")
      (simp_all add: field_def lookup_def getitem_def)
  from tb fa y b bt gm rings rd xs have "xs \<noteq> []"
    by (auto simp: field_def lookup_def getitem_def)
  with shortest_distance_shape [OF xs] obtain d p where dp: "xs = [PyFloat d, PyTuple p]"
    by blast
  have "try_block t g f al =
     (if float_le d (Finite 1250) then
        Inr (f\<lparr>attributes := Some (fa(''Distance'' \<mapsto> PyFloat d))\<rparr>,
             al @ [fa(''Distance'' \<mapsto> PyFloat d)])
      else Inr (f, al))"
    using try_block_retains [of f fa y gm rd rs t g d p al] fa y b bt gm rings rd xs dp
    by simp
  with assms False have "float_le d (Finite 1250)"
    and "f' = f\<lparr>attributes := Some (fa(''Distance'' \<mapsto> PyFloat d))\<rparr>"
    and "al' = al @ [fa(''Distance'' \<mapsto> PyFloat d)]"
    by (auto split: if_splits)
  moreover from b bt have "year_in_bounds y = Inr True" by simp
  moreover from rings rd have "gm ''rings'' = Some (rd # rs)" by simp
  moreover from xs dp have
    "shortest_distance_from_place_to_fire_perimeter t g West_Odessa_latlon rd =
       Inr [PyFloat d, PyTuple p]" by simp
  ultimately show ?thesis using fa y gm by blast
qed

text \<open>A raise leaves the feature as it was, and does not depend on the rows so far.\<close>

lemma try_block_Inl:
  "try_block t g f al = Inl (e, f') \<Longrightarrow> f' = f \<and> try_block t g f al' = Inl (e, f)"
  by (auto simp: try_block_eq split: sum.splits if_splits)

lemma try_block_al:
  "try_block t g f al = map_sum id (\<lambda>(f', xs). (f', al @ xs)) (try_block t g f [])"
  by (auto simp: try_block_eq split: sum.splits)

section \<open>The model run on the concrete features\<close>

lemma demo_near_distance:
  "shortest_distance_from_place_to_fire_perimeter demo_transform demo_inv West_Odessa_latlon
     [[Finite (-10236760), Finite 3182560], [Finite (-10236760), Finite 3185560],
      [Finite (-10236760), Finite 3183560]] =
   Inr [PyFloat (Finite 10), PyTuple (Finite 31.8556, Finite (-102.3676))]"
  by (simp add: demo_eval)

lemma demo_far_distance:
  "shortest_distance_from_place_to_fire_perimeter demo_transform demo_inv West_Odessa_latlon
     [[Finite (-10236760), Finite 3384560]] =
   Inr [PyFloat (Finite 2000), PyTuple (Finite 33.8456, Finite (-102.3676))]"
  by (simp add: demo_eval)

lemma demo_threshold_distance:
  "shortest_distance_from_place_to_fire_perimeter demo_transform demo_inv West_Odessa_latlon
     [[Finite (-10236760), Finite 3309560]] =
   Inr [PyFloat (Finite 1250), PyTuple (Finite 33.0956, Finite (-102.3676))]"
  by (simp add: demo_eval)

lemma try_block_demo_near:
  "try_block demo_transform demo_inv demo_near al =
     Inr (demo_near\<lparr>attributes := Some [''OBJECTID'' \<mapsto> PyInt 1, ''Fire_Year'' \<mapsto> PyInt 2000,
            ''Distance'' \<mapsto> PyFloat (Finite 10)]\<rparr>,
          al @ [[''OBJECTID'' \<mapsto> PyInt 1, ''Fire_Year'' \<mapsto> PyInt 2000,
            ''Distance'' \<mapsto> PyFloat (Finite 10)]])"
  by (simp add: try_block_eq demo_near_def field_def lookup_def getitem_def demo_near_distance)

lemma try_block_demo_no_rings:
  "try_block demo_transform demo_inv demo_no_rings al = Inl (KeyError ''rings'', demo_no_rings)"
  by (simp add: try_block_eq demo_no_rings_def field_def lookup_def)

lemma try_block_demo_far:
  "try_block demo_transform demo_inv demo_far al = Inr (demo_far, al)"
  by (simp add: try_block_eq demo_far_def field_def lookup_def getitem_def demo_far_distance)

lemma try_block_demo_threshold:
  "try_block demo_transform demo_inv demo_threshold al =
     Inr (demo_threshold\<lparr>attributes := Some [''OBJECTID'' \<mapsto> PyInt 4, ''Fire_Year'' \<mapsto> PyInt 1963,
            ''Distance'' \<mapsto> PyFloat (Finite 1250)]\<rparr>,
          al @ [[''OBJECTID'' \<mapsto> PyInt 4, ''Fire_Year'' \<mapsto> PyInt 1963,
            ''Distance'' \<mapsto> PyFloat (Finite 1250)]])"
  by (simp add: try_block_eq demo_threshold_def field_def lookup_def getitem_def
      demo_threshold_distance)

lemma pipeline_demo:
  "pipeline demo_transform demo_inv [demo_near, demo_no_rings, demo_far, demo_threshold] =
     \<lparr>gj_features =
        [demo_near\<lparr>attributes := Some [''OBJECTID'' \<mapsto> PyInt 1, ''Fire_Year'' \<mapsto> PyInt 2000,
            ''Distance'' \<mapsto> PyFloat (Finite 10)]\<rparr>,
         demo_no_rings, demo_far,
         demo_threshold\<lparr>attributes := Some [''OBJECTID'' \<mapsto> PyInt 4, ''Fire_Year'' \<mapsto> PyInt 1963,
            ''Distance'' \<mapsto> PyFloat (Finite 1250)]\<rparr>],
      attributes_list =
        [[''OBJECTID'' \<mapsto> PyInt 1, ''Fire_Year'' \<mapsto> PyInt 2000,
          ''Distance'' \<mapsto> PyFloat (Finite 10)],
         [''OBJECTID'' \<mapsto> PyInt 4, ''Fire_Year'' \<mapsto> PyInt 1963,
          ''Distance'' \<mapsto> PyFloat (Finite 1250)]],
      console = [''An error occurred : '' @ quoted ''rings'']\<rparr>"
  by (simp add: pipeline_def initial_state_def loop_body_def try_block_demo_near
      try_block_demo_no_rings try_block_demo_far try_block_demo_threshold)

lemma pipeline_demo_near:
  "pipeline demo_transform demo_inv [demo_near] =
     \<lparr>gj_features =
        [demo_near\<lparr>attributes := Some [''OBJECTID'' \<mapsto> PyInt 1, ''Fire_Year'' \<mapsto> PyInt 2000,
            ''Distance'' \<mapsto> PyFloat (Finite 10)]\<rparr>],
      attributes_list =
        [[''OBJECTID'' \<mapsto> PyInt 1, ''Fire_Year'' \<mapsto> PyInt 2000,
          ''Distance'' \<mapsto> PyFloat (Finite 10)]],
      console = []\<rparr>"
  by (simp add: pipeline_def initial_state_def loop_body_def try_block_demo_near)

section \<open>The loop, feature by feature\<close>

lemma loop_body_joined:
  "loop_body t g st f = joined st (loop_body t g initial_state f)"
proof (cases "try_block t g f []")
  case (Inl a)
  then show ?thesis
    by (cases a)
      (simp add: loop_body_def joined_def initial_state_def
        try_block_al [of t g f "attributes_list st"])
next
  case (Inr r)
  then show ?thesis
    by (cases r)
      (simp add: loop_body_def joined_def initial_state_def
        try_block_al [of t g f "attributes_list st"])
qed

lemma joined_assoc: "joined (joined a b) c = joined a (joined b c)"
  by (simp add: joined_def)

lemma joined_initial [simp]: "joined initial_state a = a" "joined a initial_state = a"
  by (simp_all add: joined_def initial_state_def)

lemma filter_loop_joined:
  "filter_loop t g fs st = joined st (filter_loop t g fs initial_state)"
proof (induction fs arbitrary: st)
  case Nil
  show ?case by simp
next
  case (Cons f fs)
  have "filter_loop t g (f # fs) st = filter_loop t g fs (loop_body t g st f)" by simp
  also have "\<dots> = joined (loop_body t g st f) (filter_loop t g fs initial_state)"
    by (rule Cons.IH)
  also have "\<dots> =
      joined st (joined (loop_body t g initial_state f) (filter_loop t g fs initial_state))"
    by (subst loop_body_joined) (simp add: joined_assoc)
  also have "joined (loop_body t g initial_state f) (filter_loop t g fs initial_state) =
      filter_loop t g (f # fs) initial_state"
    using Cons.IH [of "loop_body t g initial_state f"] by simp
  finally show ?case .
qed

lemma pipeline_Cons:
  "pipeline t g (f # fs) = joined (loop_body t g initial_state f) (pipeline t g fs)"
  using filter_loop_joined [of t g fs "loop_body t g initial_state f"]
  by (simp add: pipeline_def)

lemma pipeline_Nil: "pipeline t g [] = initial_state"
  by (simp add: pipeline_def)

lemma pipeline_append:
  "pipeline t g (xs @ ys) = joined (pipeline t g xs) (pipeline t g ys)"
  by (induction xs) (simp_all add: pipeline_Nil pipeline_Cons joined_assoc)

lemma year_in_bounds_True:
  "year_in_bounds y = Inr True \<longleftrightarrow>
     (\<exists>n. y = PyInt n \<and> 1963 \<le> n \<and> n \<le> 2023) \<or>
     (\<exists>x. y = PyFloat (Finite x) \<and> 1963 \<le> x \<and> x \<le> 2023)"
proof (cases y)
  case (PyFloat v)
  then show ?thesis by (cases v) auto
qed auto

lemma loop_body_start_Inl:
  "try_block t g f [] = Inl (e, f') \<Longrightarrow>
   loop_body t g initial_state f =
     \<lparr>gj_features = [f'], attributes_list = [],
      console = [''An error occurred : '' @ str_error e]\<rparr>"
  by (simp add: loop_body_def initial_state_def)

lemma loop_body_start_Inr:
  "try_block t g f [] = Inr (f', al) \<Longrightarrow>
   loop_body t g initial_state f = \<lparr>gj_features = [f'], attributes_list = al, console = []\<rparr>"
  by (simp add: loop_body_def initial_state_def)

text \<open>What one feature adds to the output list.\<close>

lemma loop_body_start_row:
  assumes "r \<in> set (attributes_list (loop_body t g initial_state f))"
  shows "\<exists>fa y gm rd rs d p. attributes f = Some fa \<and> fa ''Fire_Year'' = Some y \<and>
        year_in_bounds y = Inr True \<and> geometry f = Some gm \<and> gm ''rings'' = Some (rd # rs) \<and>
        shortest_distance_from_place_to_fire_perimeter t g West_Odessa_latlon rd =
          Inr [PyFloat d, PyTuple p] \<and> float_le d (Finite 1250) \<and>
        r = fa(''Distance'' \<mapsto> PyFloat d)"
proof (cases "try_block t g f []")
  case (Inl a)
  obtain e f' where "a = (e, f')" by (cases a)
  with Inl assms show ?thesis by (simp add: loop_body_start_Inl)
next
  case (Inr res)
  obtain f' al where res: "res = (f', al)" by (cases res)
  with Inr have tb: "try_block t g f [] = Inr (f', al)" by simp
  with assms have r: "r \<in> set al" by (simp add: loop_body_start_Inr)
  from try_block_Inr [OF tb] r show ?thesis by auto
qed

section \<open>Claims about the filter loop\<close>

text \<open>
  C2. Every record in the output list comes from a feature of the input whose year lies in
  the inclusive bound from 1963 to 2023 and whose computed nearest-perimeter distance is at
  most 1250 miles; the record is that feature's attributes with the distance under
  \<open>'Distance'\<close>. So no record that fails either condition is in the output.
\<close>

theorem output_records_in_bounds:
  "\<forall>r \<in> set (attributes_list (pipeline t g features)).
     \<exists>f \<in> set features. \<exists>fa y gm rd rs d p.
        attributes f = Some fa \<and> fa ''Fire_Year'' = Some y \<and> r ''Fire_Year'' = Some y \<and>
        ((\<exists>n. y = PyInt n \<and> 1963 \<le> n \<and> n \<le> 2023) \<or>
         (\<exists>x. y = PyFloat (Finite x) \<and> 1963 \<le> x \<and> x \<le> 2023)) \<and>
        geometry f = Some gm \<and> gm ''rings'' = Some (rd # rs) \<and>
        shortest_distance_from_place_to_fire_perimeter t g West_Odessa_latlon rd =
          Inr [PyFloat d, PyTuple p] \<and>
        r = fa(''Distance'' \<mapsto> PyFloat d) \<and> float_le d (Finite 1250)"
proof (induction features)
  case Nil
  show ?case by (simp add: pipeline_Nil initial_state_def)
next
  case (Cons f features)
  show ?case
  proof
    fix r assume "r \<in> set (attributes_list (pipeline t g (f # features)))"
    then consider (new) "r \<in> set (attributes_list (loop_body t g initial_state f))"
      | (old) "r \<in> set (attributes_list (pipeline t g features))"
      by (auto simp: pipeline_Cons joined_def)
    then show "\<exists>f' \<in> set (f # features). \<exists>fa y gm rd rs d p.
        attributes f' = Some fa \<and> fa ''Fire_Year'' = Some y \<and> r ''Fire_Year'' = Some y \<and>
        ((\<exists>n. y = PyInt n \<and> 1963 \<le> n \<and> n \<le> 2023) \<or>
         (\<exists>x. y = PyFloat (Finite x) \<and> 1963 \<le> x \<and> x \<le> 2023)) \<and>
        geometry f' = Some gm \<and> gm ''rings'' = Some (rd # rs) \<and>
        shortest_distance_from_place_to_fire_perimeter t g West_Odessa_latlon rd =
          Inr [PyFloat d, PyTuple p] \<and>
        r = fa(''Distance'' \<mapsto> PyFloat d) \<and> float_le d (Finite 1250)"
    proof cases
      case new
      from loop_body_start_row [OF new] obtain fa y gm rd rs d p where
        h: "attributes f = Some fa" "fa ''Fire_Year'' = Some y"
        "year_in_bounds y = Inr True" "geometry f = Some gm" "gm ''rings'' = Some (rd # rs)"
        "shortest_distance_from_place_to_fire_perimeter t g West_Odessa_latlon rd =
          Inr [PyFloat d, PyTuple p]" "float_le d (Finite 1250)"
        "r = fa(''Distance'' \<mapsto> PyFloat d)"
        by blast
      from h(2,8) have "r ''Fire_Year'' = Some y" by simp
      moreover from h(3) have "(\<exists>n. y = PyInt n \<and> 1963 \<le> n \<and> n \<le> 2023) \<or>
         (\<exists>x. y = PyFloat (Finite x) \<and> 1963 \<le> x \<and> x \<le> 2023)"
        by (simp add: year_in_bounds_True)
      moreover have "f \<in> set (f # features)" by simp
      ultimately show ?thesis using h by blast
    next
      case old
      with Cons.IH show ?thesis by (meson list.set_intros(2))
    qed
  qed
qed

theorem output_records_in_bounds_witness:
  "[''OBJECTID'' \<mapsto> PyInt 1, ''Fire_Year'' \<mapsto> PyInt 2000, ''Distance'' \<mapsto> PyFloat (Finite 10)]
     \<in> set (attributes_list (pipeline demo_transform demo_inv
           [demo_near, demo_no_rings, demo_far, demo_threshold])) \<and>
   (\<exists>f \<in> set [demo_near, demo_no_rings, demo_far, demo_threshold]. \<exists>fa y gm rd rs d p.
        attributes f = Some fa \<and> fa ''Fire_Year'' = Some y \<and>
        [''OBJECTID'' \<mapsto> PyInt 1, ''Fire_Year'' \<mapsto> PyInt 2000,
         ''Distance'' \<mapsto> PyFloat (Finite 10)] ''Fire_Year'' = Some y \<and>
        ((\<exists>n. y = PyInt n \<and> 1963 \<le> n \<and> n \<le> 2023) \<or>
         (\<exists>x. y = PyFloat (Finite x) \<and> 1963 \<le> x \<and> x \<le> 2023)) \<and>
        geometry f = Some gm \<and> gm ''rings'' = Some (rd # rs) \<and>
        shortest_distance_from_place_to_fire_perimeter demo_transform demo_inv
          West_Odessa_latlon rd = Inr [PyFloat d, PyTuple p] \<and>
        [''OBJECTID'' \<mapsto> PyInt 1, ''Fire_Year'' \<mapsto> PyInt 2000,
         ''Distance'' \<mapsto> PyFloat (Finite 10)] = fa(''Distance'' \<mapsto> PyFloat d) \<and>
        float_le d (Finite 1250))"
proof -
  have m: "[''OBJECTID'' \<mapsto> PyInt 1, ''Fire_Year'' \<mapsto> PyInt 2000,
      ''Distance'' \<mapsto> PyFloat (Finite 10)]
     \<in> set (attributes_list (pipeline demo_transform demo_inv
           [demo_near, demo_no_rings, demo_far, demo_threshold]))"
    by (simp add: pipeline_demo)
  from m bspec [OF output_records_in_bounds m] show ?thesis by (rule conjI)
qed

text \<open>
  C4. When the body of the \<open>try\<close> raises for a record, the record adds no row to the output,
  one message is printed, the record itself is left as it was, and the records before and
  after it are processed as if it were not there: the run goes on to the end.
\<close>

theorem failed_record_is_skipped:
  assumes "try_block t g f al = Inl (e, f')"
  shows "attributes_list (pipeline t g (pre @ f # post)) =
       attributes_list (pipeline t g (pre @ post)) \<and>
     console (pipeline t g (pre @ f # post)) =
       console (pipeline t g pre) @ [''An error occurred : '' @ str_error e] @
       console (pipeline t g post) \<and>
     gj_features (pipeline t g (pre @ f # post)) =
       gj_features (pipeline t g pre) @ [f] @ gj_features (pipeline t g post)"
proof -
  from assms have "try_block t g f [] = Inl (e, f)" using try_block_Inl by blast
  then have "loop_body t g initial_state f =
     \<lparr>gj_features = [f], attributes_list = [],
      console = [''An error occurred : '' @ str_error e]\<rparr>"
    by (rule loop_body_start_Inl)
  then show ?thesis
    by (simp add: pipeline_append pipeline_Cons joined_def)
qed

theorem failed_record_is_skipped_witness:
  "try_block demo_transform demo_inv demo_no_rings [] = Inl (KeyError ''rings'', demo_no_rings) \<and>
   attributes_list (pipeline demo_transform demo_inv
       [demo_near, demo_no_rings, demo_far, demo_threshold]) =
     attributes_list (pipeline demo_transform demo_inv [demo_near, demo_far, demo_threshold]) \<and>
   console (pipeline demo_transform demo_inv
       [demo_near, demo_no_rings, demo_far, demo_threshold]) =
     console (pipeline demo_transform demo_inv [demo_near]) @
       [''An error occurred : '' @ str_error (KeyError ''rings'')] @
     console (pipeline demo_transform demo_inv [demo_far, demo_threshold])"
  using failed_record_is_skipped [OF try_block_demo_no_rings [of "[]"], of "[demo_near]"
      "[demo_far, demo_threshold]"] try_block_demo_no_rings [of "[]"]
  by simp

text \<open>
  As worded, C6 says that no loaded feature is modified in place. The loop writes into the
  attribute dict of a feature it keeps: after the run the feature has a \<open>'Distance'\<close> it
  was not loaded with.
\<close>

theorem loaded_feature_counterexample:
  "the (attributes (hd (gj_features (pipeline demo_transform demo_inv [demo_near]))))
      ''Distance'' = Some (PyFloat (Finite 10)) \<and>
   the (attributes demo_near) ''Distance'' = None"
  by (simp add: pipeline_demo_near) (simp add: demo_near_def)

text \<open>What the loop body does to one feature.\<close>

lemma loop_body_start_feature:
  "\<exists>f'. gj_features (loop_body t g initial_state f) = [f'] \<and> geometry f' = geometry f \<and>
     (\<forall>fa y gm rd rs d p.
        attributes f = Some fa \<and> fa ''Fire_Year'' = Some y \<and>
           ((\<exists>n. y = PyInt n \<and> 1963 \<le> n \<and> n \<le> 2023) \<or>
            (\<exists>x. y = PyFloat (Finite x) \<and> 1963 \<le> x \<and> x \<le> 2023)) \<and>
        geometry f = Some gm \<and> gm ''rings'' = Some (rd # rs) \<and>
        shortest_distance_from_place_to_fire_perimeter t g West_Odessa_latlon rd =
          Inr [PyFloat d, PyTuple p] \<and> float_le d (Finite 1250) \<longrightarrow>
        f' = f\<lparr>attributes := Some (fa(''Distance'' \<mapsto> PyFloat d))\<rparr> \<and>
        fa(''Distance'' \<mapsto> PyFloat d) \<in> set (attributes_list (loop_body t g initial_state f))) \<and>
     (f' = f \<or>
      (\<exists>fa y gm rd rs d p.
        attributes f = Some fa \<and> fa ''Fire_Year'' = Some y \<and>
           ((\<exists>n. y = PyInt n \<and> 1963 \<le> n \<and> n \<le> 2023) \<or>
            (\<exists>x. y = PyFloat (Finite x) \<and> 1963 \<le> x \<and> x \<le> 2023)) \<and>
        geometry f = Some gm \<and> gm ''rings'' = Some (rd # rs) \<and>
        shortest_distance_from_place_to_fire_perimeter t g West_Odessa_latlon rd =
          Inr [PyFloat d, PyTuple p] \<and> float_le d (Finite 1250) \<and>
        f' = f\<lparr>attributes := Some (fa(''Distance'' \<mapsto> PyFloat d))\<rparr>))"
proof (cases "try_block t g f []")
  case (Inl a)
  obtain e f' where a: "a = (e, f')" by (cases a)
  with Inl have tb: "try_block t g f [] = Inl (e, f')" by simp
  with try_block_Inl have same: "f' = f" by blast
  from tb have lb: "loop_body t g initial_state f =
     \<lparr>gj_features = [f'], attributes_list = [],
      console = [''An error occurred : '' @ str_error e]\<rparr>"
    by (rule loop_body_start_Inl)
  have "\<forall>fa y gm rd rs d p.
        attributes f = Some fa \<and> fa ''Fire_Year'' = Some y \<and>
           ((\<exists>n. y = PyInt n \<and> 1963 \<le> n \<and> n \<le> 2023) \<or>
            (\<exists>x. y = PyFloat (Finite x) \<and> 1963 \<le> x \<and> x \<le> 2023)) \<and>
        geometry f = Some gm \<and> gm ''rings'' = Some (rd # rs) \<and>
        shortest_distance_from_place_to_fire_perimeter t g West_Odessa_latlon rd =
          Inr [PyFloat d, PyTuple p] \<and> float_le d (Finite 1250) \<longrightarrow> False"
  proof (intro allI impI)
    fix fa y gm rd rs d p
    assume h: "attributes f = Some fa \<and> fa ''Fire_Year'' = Some y \<and>
           ((\<exists>n. y = PyInt n \<and> 1963 \<le> n \<and> n \<le> 2023) \<or>
            (\<exists>x. y = PyFloat (Finite x) \<and> 1963 \<le> x \<and> x \<le> 2023)) \<and>
        geometry f = Some gm \<and> gm ''rings'' = Some (rd # rs) \<and>
        shortest_distance_from_place_to_fire_perimeter t g West_Odessa_latlon rd =
          Inr [PyFloat d, PyTuple p] \<and> float_le d (Finite 1250)"
    with try_block_retains [of f fa y gm rd rs t g d p "[]"] tb show False
      by (simp add: year_in_bounds_True)
  qed
  with lb same show ?thesis by auto
next
  case (Inr res)
  obtain f' al where res: "res = (f', al)" by (cases res)
  with Inr have tb: "try_block t g f [] = Inr (f', al)" by simp
  then have lb: "loop_body t g initial_state f =
      \<lparr>gj_features = [f'], attributes_list = al, console = []\<rparr>"
    by (rule loop_body_start_Inr)
  have A: "\<forall>fa y gm rd rs d p.
        attributes f = Some fa \<and> fa ''Fire_Year'' = Some y \<and>
           ((\<exists>n. y = PyInt n \<and> 1963 \<le> n \<and> n \<le> 2023) \<or>
            (\<exists>x. y = PyFloat (Finite x) \<and> 1963 \<le> x \<and> x \<le> 2023)) \<and>
        geometry f = Some gm \<and> gm ''rings'' = Some (rd # rs) \<and>
        shortest_distance_from_place_to_fire_perimeter t g West_Odessa_latlon rd =
          Inr [PyFloat d, PyTuple p] \<and> float_le d (Finite 1250) \<longrightarrow>
        f' = f\<lparr>attributes := Some (fa(''Distance'' \<mapsto> PyFloat d))\<rparr> \<and>
        fa(''Distance'' \<mapsto> PyFloat d) \<in> set al"
  proof (intro allI impI)
    fix fa y gm rd rs d p
    assume h: "attributes f = Some fa \<and> fa ''Fire_Year'' = Some y \<and>
           ((\<exists>n. y = PyInt n \<and> 1963 \<le> n \<and> n \<le> 2023) \<or>
            (\<exists>x. y = PyFloat (Finite x) \<and> 1963 \<le> x \<and> x \<le> 2023)) \<and>
        geometry f = Some gm \<and> gm ''rings'' = Some (rd # rs) \<and>
        shortest_distance_from_place_to_fire_perimeter t g West_Odessa_latlon rd =
          Inr [PyFloat d, PyTuple p] \<and> float_le d (Finite 1250)"
    with try_block_retains [of f fa y gm rd rs t g d p "[]"] tb
    show "f' = f\<lparr>attributes := Some (fa(''Distance'' \<mapsto> PyFloat d))\<rparr> \<and>
        fa(''Distance'' \<mapsto> PyFloat d) \<in> set al" by (simp add: year_in_bounds_True)
  qed
  from try_block_Inr [OF tb, unfolded year_in_bounds_True] have B: "f' = f \<or>
      (\<exists>fa y gm rd rs d p.
        attributes f = Some fa \<and> fa ''Fire_Year'' = Some y \<and>
           ((\<exists>n. y = PyInt n \<and> 1963 \<le> n \<and> n \<le> 2023) \<or>
            (\<exists>x. y = PyFloat (Finite x) \<and> 1963 \<le> x \<and> x \<le> 2023)) \<and>
        geometry f = Some gm \<and> gm ''rings'' = Some (rd # rs) \<and>
        shortest_distance_from_place_to_fire_perimeter t g West_Odessa_latlon rd =
          Inr [PyFloat d, PyTuple p] \<and> float_le d (Finite 1250) \<and>
        f' = f\<lparr>attributes := Some (fa(''Distance'' \<mapsto> PyFloat d))\<rparr>)"
    by blast
  then have G: "geometry f' = geometry f" by auto
  from lb A B G show ?thesis by simp
qed

text \<open>
  C6, as amended. The loop never changes a feature's geometry. A feature whose year is in
  the bound from 1963 to 2023 and whose computed nearest-perimeter distance \<open>d\<close> is at most
  1250 is, after the loop, the loaded feature with \<open>d\<close> written under \<open>'Distance'\<close> into its
  attribute dict, and that dict is a row of the output. Every other feature is left as
  loaded: a feature that differs from what was loaded is one of those, and differs in that
  way. The first ring of a feature goes through both calls and comes back as the
  reprojection loop leaves it, so the unchanged geometry rests on \<open>conv_loop_frame\<close>, through
  \<open>try_block_eq\<close>.
\<close>

theorem features_change_only_in_Distance:
  "list_all2
     (\<lambda>f f'. geometry f' = geometry f \<and>
        (\<forall>fa y gm rd rs d p.
           attributes f = Some fa \<and> fa ''Fire_Year'' = Some y \<and>
           ((\<exists>n. y = PyInt n \<and> 1963 \<le> n \<and> n \<le> 2023) \<or>
            (\<exists>x. y = PyFloat (Finite x) \<and> 1963 \<le> x \<and> x \<le> 2023)) \<and>
           geometry f = Some gm \<and> gm ''rings'' = Some (rd # rs) \<and>
           shortest_distance_from_place_to_fire_perimeter t g West_Odessa_latlon rd =
             Inr [PyFloat d, PyTuple p] \<and> float_le d (Finite 1250) \<longrightarrow>
           f' = f\<lparr>attributes := Some (fa(''Distance'' \<mapsto> PyFloat d))\<rparr> \<and>
           fa(''Distance'' \<mapsto> PyFloat d) \<in> set (attributes_list (pipeline t g features))) \<and>
        (f' = f \<or>
         (\<exists>fa y gm rd rs d p.
           attributes f = Some fa \<and> fa ''Fire_Year'' = Some y \<and>
           ((\<exists>n. y = PyInt n \<and> 1963 \<le> n \<and> n \<le> 2023) \<or>
            (\<exists>x. y = PyFloat (Finite x) \<and> 1963 \<le> x \<and> x \<le> 2023)) \<and>
           geometry f = Some gm \<and> gm ''rings'' = Some (rd # rs) \<and>
           shortest_distance_from_place_to_fire_perimeter t g West_Odessa_latlon rd =
             Inr [PyFloat d, PyTuple p] \<and> float_le d (Finite 1250) \<and>
           f' = f\<lparr>attributes := Some (fa(''Distance'' \<mapsto> PyFloat d))\<rparr>)))
     features (gj_features (pipeline t g features))"
proof (induction features)
  case Nil
  show ?case by (simp add: pipeline_Nil initial_state_def)
next
  case (Cons f features)
  let ?R = "\<lambda>S f f'. geometry f' = geometry f \<and>
        (\<forall>fa y gm rd rs d p.
           attributes f = Some fa \<and> fa ''Fire_Year'' = Some y \<and>
           ((\<exists>n. y = PyInt n \<and> 1963 \<le> n \<and> n \<le> 2023) \<or>
            (\<exists>x. y = PyFloat (Finite x) \<and> 1963 \<le> x \<and> x \<le> 2023)) \<and>
           geometry f = Some gm \<and> gm ''rings'' = Some (rd # rs) \<and>
           shortest_distance_from_place_to_fire_perimeter t g West_Odessa_latlon rd =
             Inr [PyFloat d, PyTuple p] \<and> float_le d (Finite 1250) \<longrightarrow>
           f' = f\<lparr>attributes := Some (fa(''Distance'' \<mapsto> PyFloat d))\<rparr> \<and>
           fa(''Distance'' \<mapsto> PyFloat d) \<in> S) \<and>
        (f' = f \<or>
         (\<exists>fa y gm rd rs d p.
           attributes f = Some fa \<and> fa ''Fire_Year'' = Some y \<and>
           ((\<exists>n. y = PyInt n \<and> 1963 \<le> n \<and> n \<le> 2023) \<or>
            (\<exists>x. y = PyFloat (Finite x) \<and> 1963 \<le> x \<and> x \<le> 2023)) \<and>
           geometry f = Some gm \<and> gm ''rings'' = Some (rd # rs) \<and>
           shortest_distance_from_place_to_fire_perimeter t g West_Odessa_latlon rd =
             Inr [PyFloat d, PyTuple p] \<and> float_le d (Finite 1250) \<and>
           f' = f\<lparr>attributes := Some (fa(''Distance'' \<mapsto> PyFloat d))\<rparr>))"
  let ?here = "set (attributes_list (loop_body t g initial_state f))"
  let ?rest = "set (attributes_list (pipeline t g features))"
  have all: "set (attributes_list (pipeline t g (f # features))) = ?here \<union> ?rest"
    by (simp add: pipeline_Cons joined_def)
  have mono: "?R S' a b" if r: "?R S a b" and sub: "S \<subseteq> S'"
    for S S' :: "attrs set" and a b :: feature
  proof (intro conjI allI impI)
    from r show "geometry b = geometry a" by (rule conjunct1)
    from r show "b = a \<or>
         (\<exists>fa y gm rd rs d p.
           attributes a = Some fa \<and> fa ''Fire_Year'' = Some y \<and>
           ((\<exists>n. y = PyInt n \<and> 1963 \<le> n \<and> n \<le> 2023) \<or>
            (\<exists>x. y = PyFloat (Finite x) \<and> 1963 \<le> x \<and> x \<le> 2023)) \<and>
           geometry a = Some gm \<and> gm ''rings'' = Some (rd # rs) \<and>
           shortest_distance_from_place_to_fire_perimeter t g West_Odessa_latlon rd =
             Inr [PyFloat d, PyTuple p] \<and> float_le d (Finite 1250) \<and>
           b = a\<lparr>attributes := Some (fa(''Distance'' \<mapsto> PyFloat d))\<rparr>)"
      by (rule conjunct2 [THEN conjunct2])
  next
    fix fa y gm rd rs d p
    assume h: "attributes a = Some fa \<and> fa ''Fire_Year'' = Some y \<and>
           ((\<exists>n. y = PyInt n \<and> 1963 \<le> n \<and> n \<le> 2023) \<or>
            (\<exists>x. y = PyFloat (Finite x) \<and> 1963 \<le> x \<and> x \<le> 2023)) \<and>
           geometry a = Some gm \<and> gm ''rings'' = Some (rd # rs) \<and>
           shortest_distance_from_place_to_fire_perimeter t g West_Odessa_latlon rd =
             Inr [PyFloat d, PyTuple p] \<and> float_le d (Finite 1250)"
    note A = r [THEN conjunct2, THEN conjunct1, rule_format, OF h]
    from A show "b = a\<lparr>attributes := Some (fa(''Distance'' \<mapsto> PyFloat d))\<rparr>"
      by (rule conjunct1)
    from A sub show "fa(''Distance'' \<mapsto> PyFloat d) \<in> S'" by blast
  qed
  from loop_body_start_feature [of t g f] obtain f' where
    both: "gj_features (loop_body t g initial_state f) = [f'] \<and> ?R ?here f f'" ..
  from both have f': "gj_features (loop_body t g initial_state f) = [f']" by (rule conjunct1)
  from both have R: "?R ?here f f'" by (rule conjunct2)
  from R have R': "?R (?here \<union> ?rest) f f'" by (rule mono) simp
  from Cons.IH have "list_all2 (?R ?rest) features (gj_features (pipeline t g features))" .
  then have L: "list_all2 (?R (?here \<union> ?rest)) features (gj_features (pipeline t g features))"
  proof (rule list_all2_mono)
    fix a b :: feature assume "?R ?rest a b"
    then show "?R (?here \<union> ?rest) a b" by (rule mono) simp
  qed
  have step: "list_all2 (?R (?here \<union> ?rest)) (f # features)
      (f' # gj_features (pipeline t g features))"
    by (rule list_all2_Cons [THEN iffD2]) (rule conjI [OF R' L])
  have gj: "gj_features (pipeline t g (f # features)) = f' # gj_features (pipeline t g features)"
    by (simp add: pipeline_Cons joined_def f')
  show ?case unfolding gj all by (rule step)
qed

theorem features_change_only_in_Distance_witness:
  "attributes demo_near = Some [''OBJECTID'' \<mapsto> PyInt 1, ''Fire_Year'' \<mapsto> PyInt 2000] \<and>
   (1963 :: int) \<le> 2000 \<and> (2000 :: int) \<le> 2023 \<and>
   shortest_distance_from_place_to_fire_perimeter demo_transform demo_inv West_Odessa_latlon
     [[Finite (-10236760), Finite 3182560], [Finite (-10236760), Finite 3185560],
      [Finite (-10236760), Finite 3183560]] =
     Inr [PyFloat (Finite 10), PyTuple (Finite 31.8556, Finite (-102.3676))] \<and>
   float_le (Finite 10) (Finite 1250) \<and>
   gj_features (pipeline demo_transform demo_inv
       [demo_near, demo_no_rings, demo_far, demo_threshold]) ! 0 =
     demo_near\<lparr>attributes := Some [''OBJECTID'' \<mapsto> PyInt 1, ''Fire_Year'' \<mapsto> PyInt 2000,
        ''Distance'' \<mapsto> PyFloat (Finite 10)]\<rparr> \<and>
   [''OBJECTID'' \<mapsto> PyInt 1, ''Fire_Year'' \<mapsto> PyInt 2000, ''Distance'' \<mapsto> PyFloat (Finite 10)]
     \<in> set (attributes_list (pipeline demo_transform demo_inv
           [demo_near, demo_no_rings, demo_far, demo_threshold]))"
proof -
  let ?fs = "[demo_near, demo_no_rings, demo_far, demo_threshold]"
  let ?fa = "[''OBJECTID'' \<mapsto> PyInt 1, ''Fire_Year'' \<mapsto> PyInt 2000]"
  let ?gm = "[''rings'' \<mapsto>
        [[[Finite (-10236760), Finite 3182560], [Finite (-10236760), Finite 3185560],
          [Finite (-10236760), Finite 3183560]],
         [[Finite (-10236760), Finite 3184560]]]]"
  have a: "attributes demo_near = Some ?fa" by (simp add: demo_near_def)
  have y: "?fa ''Fire_Year'' = Some (PyInt 2000)" by simp
  have b: "(\<exists>n. PyInt 2000 = PyInt n \<and> 1963 \<le> n \<and> n \<le> 2023) \<or>
      (\<exists>x. PyInt 2000 = PyFloat (Finite x) \<and> 1963 \<le> x \<and> x \<le> 2023)"
    by simp
  have b1: "(1963 :: int) \<le> 2000" and b2: "(2000 :: int) \<le> 2023" by simp_all
  have gm: "geometry demo_near = Some ?gm" by (simp add: demo_near_def)
  have r: "?gm ''rings'' =
      Some ([[Finite (-10236760), Finite 3182560], [Finite (-10236760), Finite 3185560],
          [Finite (-10236760), Finite 3183560]] # [[[Finite (-10236760), Finite 3184560]]])"
    by simp
  have le: "float_le (Finite 10) (Finite 1250)" by simp
  have len: "0 < length ?fs" by simp
  note P0 = list_all2_nthD [OF features_change_only_in_Distance
      [of demo_transform demo_inv ?fs] len, unfolded nth_Cons_0]
  note A0 = P0 [THEN conjunct2, THEN conjunct1, rule_format,
      where fa = ?fa and y = "PyInt 2000" and gm = ?gm and d = "Finite 10"
        and p = "(Finite 31.8556, Finite (-102.3676))"
        and rd = "[[Finite (-10236760), Finite 3182560], [Finite (-10236760), Finite 3185560],
          [Finite (-10236760), Finite 3183560]]"
        and rs = "[[[Finite (-10236760), Finite 3184560]]]",
      OF conjI [OF a conjI [OF y conjI [OF b conjI [OF gm conjI [OF r
        conjI [OF demo_near_distance le]]]]]]]
  from a b1 b2 demo_near_distance le A0 [THEN conjunct1] A0 [THEN conjunct2]
  show ?thesis by (intro conjI)
qed

text \<open>
  C8. Only the first ring of a feature's geometry is used: replacing the rings after the
  first by any others changes neither an error, nor whether the record is retained, nor the
  distance written, nor what is printed.
\<close>

theorem only_first_ring_is_used:
  assumes "geometry f = Some gm" and "gm ''rings'' = Some (r # rs)"
  shows "try_block t g (f\<lparr>geometry := Some (gm(''rings'' \<mapsto> r # rs'))\<rparr>) al =
       map_sum (\<lambda>(e, f'). (e, f'\<lparr>geometry := Some (gm(''rings'' \<mapsto> r # rs'))\<rparr>))
         (\<lambda>(f', al'). (f'\<lparr>geometry := Some (gm(''rings'' \<mapsto> r # rs'))\<rparr>, al'))
         (try_block t g f al) \<and>
     attributes_list (loop_body t g st (f\<lparr>geometry := Some (gm(''rings'' \<mapsto> r # rs'))\<rparr>)) =
       attributes_list (loop_body t g st f) \<and>
     console (loop_body t g st (f\<lparr>geometry := Some (gm(''rings'' \<mapsto> r # rs'))\<rparr>)) =
       console (loop_body t g st f)"
proof -
  have tb: "try_block t g (f\<lparr>geometry := Some (gm(''rings'' \<mapsto> r # rs'))\<rparr>) al =
       map_sum (\<lambda>(e, f'). (e, f'\<lparr>geometry := Some (gm(''rings'' \<mapsto> r # rs'))\<rparr>))
         (\<lambda>(f', al'). (f'\<lparr>geometry := Some (gm(''rings'' \<mapsto> r # rs'))\<rparr>, al'))
         (try_block t g f al)" for al
    using assms
    by (auto simp: try_block_eq field_def lookup_def getitem_def split: sum.splits option.splits)
  show ?thesis
  proof (cases "try_block t g f (attributes_list st)")
    case (Inl a)
    with tb [of "attributes_list st"] tb [of al] show ?thesis
      by (cases a) (simp add: loop_body_def)
  next
    case (Inr res)
    with tb [of "attributes_list st"] tb [of al] show ?thesis
      by (cases res) (simp add: loop_body_def)
  qed
qed

theorem only_first_ring_is_used_witness:
  "geometry demo_near = Some [''rings'' \<mapsto>
        [[[Finite (-10236760), Finite 3182560], [Finite (-10236760), Finite 3185560],
          [Finite (-10236760), Finite 3183560]],
         [[Finite (-10236760), Finite 3184560]]]] \<and>
   attributes_list (loop_body demo_transform demo_inv initial_state
     (demo_near\<lparr>geometry := Some [''rings'' \<mapsto>
        [[[Finite (-10236760), Finite 3182560], [Finite (-10236760), Finite 3185560],
          [Finite (-10236760), Finite 3183560]]]]\<rparr>)) =
   attributes_list (loop_body demo_transform demo_inv initial_state demo_near) \<and>
   attributes_list (loop_body demo_transform demo_inv initial_state demo_near) =
     [[''OBJECTID'' \<mapsto> PyInt 1, ''Fire_Year'' \<mapsto> PyInt 2000,
       ''Distance'' \<mapsto> PyFloat (Finite 10)]]"
proof -
  let ?r = "[[Finite (-10236760), Finite 3182560], [Finite (-10236760), Finite 3185560],
          [Finite (-10236760), Finite 3183560]]"
  let ?gm = "[''rings'' \<mapsto> [?r, [[Finite (-10236760), Finite 3184560]]]]"
  have g: "geometry demo_near = Some ?gm"
    by (simp add: demo_near_def)
  have r: "?gm ''rings'' = Some (?r # [[[Finite (-10236760), Finite 3184560]]])"
    by simp
  have v: "attributes_list (loop_body demo_transform demo_inv initial_state demo_near) =
     [[''OBJECTID'' \<mapsto> PyInt 1, ''Fire_Year'' \<mapsto> PyInt 2000,
       ''Distance'' \<mapsto> PyFloat (Finite 10)]]"
    by (simp add: loop_body_def initial_state_def try_block_demo_near)
  have e: "?gm(''rings'' \<mapsto> [?r]) = [''rings'' \<mapsto> [?r]]"
    by (rule fun_upd_upd)
  note th = only_first_ring_is_used [OF g r, of demo_transform demo_inv "[]" "[]" initial_state]
  from g th [unfolded e, THEN conjunct2, THEN conjunct1] v show ?thesis by (intro conjI)
qed

text \<open>
  C9. The threshold is 1250 miles and the comparison is inclusive: a record in the year
  bound is retained when, and only when, its nearest-perimeter distance is at most 1250;
  at a distance of exactly 1250 miles it is retained.
\<close>

theorem threshold_is_inclusive:
  assumes "attributes f = Some fa" and "fa ''Fire_Year'' = Some y"
    and "year_in_bounds y = Inr True"
    and "geometry f = Some gm" and "gm ''rings'' = Some (rd # rs)"
    and "shortest_distance_from_place_to_fire_perimeter t g West_Odessa_latlon rd =
           Inr [PyFloat d, PyTuple p]"
  shows "attributes_list (loop_body t g st f) =
     (if float_le d (Finite 1250) then attributes_list st @ [fa(''Distance'' \<mapsto> PyFloat d)]
      else attributes_list st)"
  using try_block_retains [OF assms, of "attributes_list st"]
  by (simp add: loop_body_def)

theorem threshold_is_inclusive_witness:
  "attributes demo_threshold = Some [''OBJECTID'' \<mapsto> PyInt 4, ''Fire_Year'' \<mapsto> PyInt 1963] \<and>
   year_in_bounds (PyInt 1963) = Inr True \<and>
   shortest_distance_from_place_to_fire_perimeter demo_transform demo_inv West_Odessa_latlon
     [[Finite (-10236760), Finite 3309560]] =
     Inr [PyFloat (Finite 1250), PyTuple (Finite 33.0956, Finite (-102.3676))] \<and>
   attributes_list (loop_body demo_transform demo_inv initial_state demo_threshold) =
     [[''OBJECTID'' \<mapsto> PyInt 4, ''Fire_Year'' \<mapsto> PyInt 1963,
       ''Distance'' \<mapsto> PyFloat (Finite 1250)]]"
proof -
  have a: "attributes demo_threshold = Some [''OBJECTID'' \<mapsto> PyInt 4, ''Fire_Year'' \<mapsto> PyInt 1963]"
    by (simp add: demo_threshold_def)
  have y: "[''OBJECTID'' \<mapsto> PyInt 4, ''Fire_Year'' \<mapsto> PyInt 1963] ''Fire_Year'' = Some (PyInt 1963)"
    by simp
  have b: "year_in_bounds (PyInt 1963) = Inr True" by simp
  have gm: "geometry demo_threshold =
      Some [''rings'' \<mapsto> [[[Finite (-10236760), Finite 3309560]]]]"
    by (simp add: demo_threshold_def)
  have r: "[''rings'' \<mapsto> [[[Finite (-10236760), Finite 3309560]]]] ''rings'' =
      Some ([[Finite (-10236760), Finite 3309560]] # [])"
    by simp
  from threshold_is_inclusive [OF a y b gm r demo_threshold_distance, of initial_state]
    a b demo_threshold_distance
  show ?thesis by (simp add: initial_state_def)
qed

end
